theory Spec2Isabelle
  imports Complex_Main "HOL-Library.Sublist"
begin

section \<open>Python strings and slices\<close>

text \<open>
  A Python \<open>str\<close> is modelled as a \<^typ>\<open>string\<close>: one \<^typ>\<open>char\<close> per code point,
  for the code points below 256. \<open>len\<close> is \<^const>\<open>length\<close> and \<open>+\<close> is \<open>@\<close>.
\<close>

definition isspace :: "char \<Rightarrow> bool" where
  \<comment> \<open>\<open>str.isspace\<close> on one code point: tab to carriage return, the four separators
      0x1C to 0x1F, the space, NEL and the no-break space.\<close>
  "isspace c =
     (let n = (of_char c :: nat) in
      (9 \<le> n \<and> n \<le> 13) \<or> (28 \<le> n \<and> n \<le> 32) \<or> n = 133 \<or> n = 160)"

definition lower_char :: "char \<Rightarrow> char" where
  \<comment> \<open>\<open>str.lower\<close> on one code point: A to Z, and the capital letters 0xC0 to 0xDE
      (not the multiplication sign 0xD7), move up by 32.\<close>
  "lower_char c =
     (let n = (of_char c :: nat) in
      if (65 \<le> n \<and> n \<le> 90) \<or> (192 \<le> n \<and> n \<le> 222 \<and> n \<noteq> 215)
      then char_of (n + 32) else c)"

definition lower :: "string \<Rightarrow> string" where
  "lower s = map lower_char s"

definition lstrip :: "string \<Rightarrow> string" where
  "lstrip s = dropWhile isspace s"

definition rstrip :: "string \<Rightarrow> string" where
  "rstrip s = rev (dropWhile isspace (rev s))"

definition strip :: "string \<Rightarrow> string" where
  "strip s = rstrip (lstrip s)"

fun contains :: "string \<Rightarrow> string \<Rightarrow> bool" where
  \<comment> \<open>\<open>contains w s\<close> is Python's \<open>w in s\<close> on strings.\<close>
  "contains w [] = (w = [])"
| "contains w (c # cs) = (prefix w (c # cs) \<or> contains w cs)"

definition any_in :: "string list \<Rightarrow> string \<Rightarrow> bool" where
  \<comment> \<open>\<open>any(word in s for word in words)\<close>\<close>
  "any_in words s = list_ex (\<lambda>word. contains word s) words"

definition py_take :: "int \<Rightarrow> 'a list \<Rightarrow> 'a list" where
  \<comment> \<open>the slice \<open>xs[:n]\<close>: a negative \<open>n\<close> counts from the end.\<close>
  "py_take n xs = (if 0 \<le> n then take (nat n) xs else take (nat (int (length xs) + n)) xs)"

section \<open>Provider health (\<open>self.api_health\<close>)\<close>

datatype api = themealdb | usda | fatsecret | spoonacular

fun api_name :: "api \<Rightarrow> string" where
  "api_name themealdb = ''themealdb''"
| "api_name usda = ''usda''"
| "api_name fatsecret = ''fatsecret''"
| "api_name spoonacular = ''spoonacular''"

record health_entry =
  available :: bool
  last_success :: real
  failures :: int

type_synonym api_health = "api \<Rightarrow> health_entry"

definition init_api_health :: "real \<Rightarrow> api_health" where
  \<comment> \<open>the table built by \<open>__init__\<close>; \<open>now\<close> is the reading of \<open>time.time()\<close>.\<close>
  "init_api_health now = (\<lambda>_. \<lparr>available = True, last_success = now, failures = 0\<rparr>)"

text \<open>
  A provider method does network I/O, so what it does is an input of the model: when called
  it either raises (an \<open>Exception\<close>, which the orchestrators catch) or returns a value.
\<close>

datatype 'a outcome = Raises | Returns 'a

section \<open>Recipes\<close>

text \<open>A recipe is a Python dict from string keys to JSON-like values.\<close>

datatype pyval =
    VStr string
  | VInt int
  | VBool bool
  | VList "pyval list"
  | VDict "(string \<times> pyval) list"

type_synonym recipe = "string \<rightharpoonup> pyval"

definition chicken_instructions :: string where
  "chicken_instructions =
     ''1. Season chicken breast with salt, pepper, and garlic powder.'' @
     [CHR 0x0A] @
     ''2. Brush with olive oil.'' @
     [CHR 0x0A] @
     ''3. Grill for 6-7 minutes per side until internal temperature reaches 1'' @
     ''65'' @
     [CHR 0xB0] @
     ''F.'' @
     [CHR 0x0A] @
     ''4. Let rest for 5 minutes before serving.''"

definition salad_instructions :: string where
  "salad_instructions =
     ''1. Wash and chop all vegetables.'' @
     [CHR 0x0A] @
     ''2. In a large bowl, combine mixed greens, tomatoes, cucumber, and red '' @
     ''onion.'' @
     [CHR 0x0A] @
     ''3. Drizzle with olive oil and balsamic vinegar.'' @
     [CHR 0x0A] @
     ''4. Top with crumbled feta cheese.'' @
     [CHR 0x0A] @
     ''5. Toss gently and serve immediately.''"

definition pasta_instructions :: string where
  "pasta_instructions =
     ''1. Cook spaghetti according to package directions until al dente.'' @
     [CHR 0x0A] @
     ''2. While pasta cooks, mince garlic and chop parsley.'' @
     [CHR 0x0A] @
     ''3. Heat olive oil in a large pan over medium heat.'' @
     [CHR 0x0A] @
     ''4. Add garlic and red pepper flakes, saut'' @
     [CHR 0xE9] @
     '' for 2 minutes.'' @
     [CHR 0x0A] @
     ''5. Drain pasta, reserving 1 cup pasta water.'' @
     [CHR 0x0A] @
     ''6. Add pasta to pan with garlic oil.'' @
     [CHR 0x0A] @
     ''7. Toss with parsley and parmesan cheese.'' @
     [CHR 0x0A] @
     ''8. Add pasta water as needed for sauce consistency.''"

definition quinoa_instructions :: string where
  "quinoa_instructions =
     ''1. Cook quinoa according to package directions.'' @
     [CHR 0x0A] @
     ''2. Drain and rinse chickpeas.'' @
     [CHR 0x0A] @
     ''3. Chop tomatoes, cucumber, and red onion.'' @
     [CHR 0x0A] @
     ''4. In a bowl, combine cooked quinoa, chickpeas, and chopped vegetables'' @
     ''.'' @
     [CHR 0x0A] @
     ''5. Dress with olive oil and lemon juice.'' @
     [CHR 0x0A] @
     ''6. Top with crumbled feta cheese.''"

definition soup_instructions :: string where
  "soup_instructions =
     ''1. Dice chicken breast, carrots, celery, and onion.'' @
     [CHR 0x0A] @
     ''2. Mince garlic.'' @
     [CHR 0x0A] @
     ''3. In a large pot, saut'' @
     [CHR 0xE9] @
     '' onion and garlic in a little oil.'' @
     [CHR 0x0A] @
     ''4. Add diced chicken and cook until browned.'' @
     [CHR 0x0A] @
     ''5. Add carrots, celery, broth, thyme, and bay leaf.'' @
     [CHR 0x0A] @
     ''6. Bring to boil, then simmer for 20 minutes.'' @
     [CHR 0x0A] @
     ''7. Season with salt and pepper to taste.''"

definition chicken_recipe :: recipe where
  "chicken_recipe =
     [''title'' \<mapsto> VStr ''Simple Grilled Chicken'',
      ''ingredients'' \<mapsto> VList [VStr ''chicken breast'', VStr ''olive oil'', VStr ''salt'', VStr ''pepper'', VStr ''garlic powder''],
      ''instructions'' \<mapsto> VStr chicken_instructions,
      ''category'' \<mapsto> VStr ''Main Course'',
      ''readyInMinutes'' \<mapsto> VInt 20,
      ''servings'' \<mapsto> VInt 2,
      ''source'' \<mapsto> VStr ''Fallback Recipe'',
      ''image'' \<mapsto> VStr ''https://via.placeholder.com/300x200?text=Grilled+Chicken'',
      ''nutrition'' \<mapsto> VDict [(''calories'', VInt 350), (''protein'', VInt 30), (''carbs'', VInt 2), (''fat'', VInt 15)],
      ''tags'' \<mapsto> VList [VStr ''healthy'', VStr ''high-protein'', VStr ''low-carb'']]"

definition salad_recipe :: recipe where
  "salad_recipe =
     [''title'' \<mapsto> VStr ''Fresh Garden Salad'',
      ''ingredients'' \<mapsto> VList [VStr ''mixed greens'', VStr ''cherry tomatoes'', VStr ''cucumber'', VStr ''red onion'', VStr ''olive oil'', VStr ''balsamic vinegar'', VStr ''feta cheese''],
      ''instructions'' \<mapsto> VStr salad_instructions,
      ''category'' \<mapsto> VStr ''Salad'',
      ''readyInMinutes'' \<mapsto> VInt 10,
      ''servings'' \<mapsto> VInt 2,
      ''source'' \<mapsto> VStr ''Fallback Recipe'',
      ''image'' \<mapsto> VStr ''https://via.placeholder.com/300x200?text=Garden+Salad'',
      ''nutrition'' \<mapsto> VDict [(''calories'', VInt 180), (''protein'', VInt 6), (''carbs'', VInt 12), (''fat'', VInt 12)],
      ''tags'' \<mapsto> VList [VStr ''healthy'', VStr ''vegetarian'', VStr ''low-calorie'']]"

definition pasta_recipe :: recipe where
  "pasta_recipe =
     [''title'' \<mapsto> VStr ''Simple Pasta Aglio e Olio'',
      ''ingredients'' \<mapsto> VList [VStr ''spaghetti'', VStr ''garlic'', VStr ''olive oil'', VStr ''red pepper flakes'', VStr ''parsley'', VStr ''parmesan cheese''],
      ''instructions'' \<mapsto> VStr pasta_instructions,
      ''category'' \<mapsto> VStr ''Main Course'',
      ''readyInMinutes'' \<mapsto> VInt 15,
      ''servings'' \<mapsto> VInt 2,
      ''source'' \<mapsto> VStr ''Fallback Recipe'',
      ''image'' \<mapsto> VStr ''https://via.placeholder.com/300x200?text=Pasta+Aglio+e+Olio'',
      ''nutrition'' \<mapsto> VDict [(''calories'', VInt 450), (''protein'', VInt 15), (''carbs'', VInt 65), (''fat'', VInt 18)],
      ''tags'' \<mapsto> VList [VStr ''classic'', VStr ''italian'', VStr ''vegetarian'']]"

definition quinoa_recipe :: recipe where
  "quinoa_recipe =
     [''title'' \<mapsto> VStr ''Mediterranean Quinoa Bowl'',
      ''ingredients'' \<mapsto> VList [VStr ''quinoa'', VStr ''chickpeas'', VStr ''feta cheese'', VStr ''cherry tomatoes'', VStr ''cucumber'', VStr ''red onion'', VStr ''olive oil'', VStr ''lemon juice''],
      ''instructions'' \<mapsto> VStr quinoa_instructions,
      ''category'' \<mapsto> VStr ''Main Course'',
      ''readyInMinutes'' \<mapsto> VInt 25,
      ''servings'' \<mapsto> VInt 2,
      ''source'' \<mapsto> VStr ''Fallback Recipe'',
      ''image'' \<mapsto> VStr ''https://via.placeholder.com/300x200?text=Quinoa+Bowl'',
      ''nutrition'' \<mapsto> VDict [(''calories'', VInt 420), (''protein'', VInt 18), (''carbs'', VInt 55), (''fat'', VInt 16)],
      ''tags'' \<mapsto> VList [VStr ''healthy'', VStr ''vegetarian'', VStr ''high-fiber'']]"

definition soup_recipe :: recipe where
  "soup_recipe =
     [''title'' \<mapsto> VStr ''Chicken Vegetable Soup'',
      ''ingredients'' \<mapsto> VList [VStr ''chicken breast'', VStr ''carrots'', VStr ''celery'', VStr ''onion'', VStr ''chicken broth'', VStr ''garlic'', VStr ''thyme'', VStr ''bay leaf''],
      ''instructions'' \<mapsto> VStr soup_instructions,
      ''category'' \<mapsto> VStr ''Soup'',
      ''readyInMinutes'' \<mapsto> VInt 30,
      ''servings'' \<mapsto> VInt 4,
      ''source'' \<mapsto> VStr ''Fallback Recipe'',
      ''image'' \<mapsto> VStr ''https://via.placeholder.com/300x200?text=Chicken+Soup'',
      ''nutrition'' \<mapsto> VDict [(''calories'', VInt 180), (''protein'', VInt 22), (''carbs'', VInt 12), (''fat'', VInt 4)],
      ''tags'' \<mapsto> VList [VStr ''healthy'', VStr ''comfort-food'', VStr ''low-fat'']]"

definition fallback_recipes :: "(string \<times> recipe) list" where
  "fallback_recipes =
     [(''chicken'', chicken_recipe),
      (''salad'', salad_recipe),
      (''pasta'', pasta_recipe),
      (''quinoa'', quinoa_recipe),
      (''soup'', soup_recipe)]"

fun str_items :: "pyval option \<Rightarrow> string list" where
  \<comment> \<open>the strings of a list value, as \<open>for word in recipe["ingredients"]\<close> visits them\<close>
  "str_items (Some (VList vs)) = concat (map (\<lambda>v. case v of VStr s \<Rightarrow> [s] | _ \<Rightarrow> []) vs)"
| "str_items _ = []"

definition fallback_match :: "string \<Rightarrow> string \<times> recipe \<Rightarrow> bool" where
  \<comment> \<open>the test of the loop in \<open>get_fallback_recipes\<close>\<close>
  "fallback_match query_lower kr =
     (contains (fst kr) query_lower \<or> any_in (str_items ((snd kr) ''ingredients'')) query_lower)"

definition get_fallback_recipes :: "string \<Rightarrow> int \<Rightarrow> recipe list" where
  "get_fallback_recipes query max_results =
     (let query_lower = lower query;
          matching = map snd (filter (fallback_match query_lower) fallback_recipes)
      in if matching \<noteq> [] then py_take max_results matching
         else [snd (fallback_recipes ! 0)])"

section \<open>Recipe search with fallback\<close>

record search_state =
  recipes :: "recipe list"
  sources_tried :: "string list"
  health :: api_health
  called :: "api list"

text \<open>
  \<open>search_env a query max_results\<close> is what provider \<open>a\<close>'s search method does when it is
  called now. \<open>called\<close> logs the providers whose method was invoked, in order.
  The \<open>diet\<close> parameter of the source is never read and is left out.
\<close>

type_synonym search_env = "api \<Rightarrow> string \<Rightarrow> int \<Rightarrow> recipe list outcome"

definition api_priority :: "api list" where
  "api_priority = [themealdb, spoonacular]"

fun search_loop ::
  "search_env \<Rightarrow> real \<Rightarrow> string \<Rightarrow> int \<Rightarrow> api list \<Rightarrow> search_state \<Rightarrow> search_state" where
  "search_loop env now query max_results [] s = s"
| "search_loop env now query max_results (a # rest) s =
     (if \<not> available (health s a) then
        search_loop env now query max_results rest
          (s\<lparr>sources_tried := sources_tried s @ [api_name a @ ''(unavailable)'']\<rparr>)
      else
        (case env a query max_results of
           Returns api_recipes \<Rightarrow>
             (let s1 = s\<lparr>called := called s @ [a],
                          sources_tried := sources_tried s @ [api_name a]\<rparr>
              in if api_recipes \<noteq> [] then
                   s1\<lparr>recipes := recipes s1 @ api_recipes,
                      health := (health s1)
                        (a := (health s1 a)\<lparr>last_success := now, failures := 0\<rparr>)\<rparr>
                 else search_loop env now query max_results rest s1)
         | Raises \<Rightarrow>
             (let n = failures (health s a) + 1;
                  h1 = (health s)(a := (health s a)\<lparr>failures := n\<rparr>);
                  h2 = (if n \<ge> 3 then h1(a := (h1 a)\<lparr>available := False\<rparr>) else h1)
              in search_loop env now query max_results rest
                   (s\<lparr>called := called s @ [a],
                      sources_tried := sources_tried s @ [api_name a @ ''(failed)''],
                      health := h2\<rparr>))))"

definition tag :: "string list \<Rightarrow> recipe \<Rightarrow> recipe" where
  \<comment> \<open>the four metadata assignments of the last loop\<close>
  "tag st r = r(''_sources_tried'' \<mapsto> VList (map VStr st),
               ''_fallback_used'' \<mapsto> VBool (length st > 1),
               ''_enhanced_by'' \<mapsto> VStr ''FREE MCP'',
               ''_api_cost'' \<mapsto> VStr ''$0'')"

definition search_recipes_with_fallback ::
  "search_env \<Rightarrow> real \<Rightarrow> api_health \<Rightarrow> string \<Rightarrow> int \<Rightarrow> search_state" where
  "search_recipes_with_fallback env now h query max_results =
     (let s = search_loop env now query max_results api_priority
                \<lparr>recipes = [], sources_tried = [], health = h, called = []\<rparr>;
          s' = (if recipes s = [] then
                  s\<lparr>recipes := get_fallback_recipes query max_results,
                    sources_tried := sources_tried s @ [''fallback'']\<rparr>
                else s)
      in s'\<lparr>recipes := py_take max_results (map (tag (sources_tried s')) (recipes s'))\<rparr>)"

section \<open>Nutrition lookup with fallback\<close>

text \<open>
  A nutrition dict always has the five keys below; its values are numbers, modelled as
  reals (the lookup, the merge and the estimator only compare them and add whole numbers).
\<close>

record nutrition =
  calories :: real
  protein :: real
  carbs :: real
  fat :: real
  fiber :: real

definition zero_nutrition :: nutrition where
  "zero_nutrition = \<lparr>calories = 0, protein = 0, carbs = 0, fat = 0, fiber = 0\<rparr>"

definition any_values :: "nutrition \<Rightarrow> bool" where
  \<comment> \<open>\<open>any(d.values())\<close>: some value is truthy, that is, not zero\<close>
  "any_values d =
     (calories d \<noteq> 0 \<or> protein d \<noteq> 0 \<or> carbs d \<noteq> 0 \<or> fat d \<noteq> 0 \<or> fiber d \<noteq> 0)"

definition merge_into :: "nutrition \<Rightarrow> nutrition \<Rightarrow> nutrition" where
  \<comment> \<open>the inner loop of \<open>merge_nutrition_data\<close> over one source's five items\<close>
  "merge_into merged data =
     \<lparr>calories = (if calories data > calories merged then calories data else calories merged),
      protein = (if protein data > protein merged then protein data else protein merged),
      carbs = (if carbs data > carbs merged then carbs data else carbs merged),
      fat = (if fat data > fat merged then fat data else fat merged),
      fiber = (if fiber data > fiber merged then fiber data else fiber merged)\<rparr>"

definition merge_nutrition_data :: "(api \<times> nutrition) list \<Rightarrow> nutrition" where
  \<comment> \<open>the dict \<open>nutrition_results\<close> is the list of its items, in insertion order\<close>
  "merge_nutrition_data nutrition_results =
     (if nutrition_results = [] then zero_nutrition
      else fold (\<lambda>(source, data) merged. merge_into merged data) nutrition_results
             zero_nutrition)"

definition estimations_protein :: "string list" where
  "estimations_protein =
     [''chicken'', ''beef'', ''fish'', ''egg'', ''tofu'', ''beans'', ''protein'', ''turkey'',
      ''pork'']"

definition estimations_high_carb :: "string list" where
  "estimations_high_carb =
     [''rice'', ''pasta'', ''bread'', ''potato'', ''flour'', ''sugar'', ''noodles'', ''quinoa'']"

definition estimations_high_fat :: "string list" where
  "estimations_high_fat =
     [''oil'', ''butter'', ''cheese'', ''avocado'', ''nuts'', ''mayonnaise'', ''cream'']"

definition estimations_high_fiber :: "string list" where
  "estimations_high_fiber =
     [''vegetables'', ''fruits'', ''whole grain'', ''beans'', ''broccoli'', ''spinach'', ''kale'']"

definition estimations_low_cal :: "string list" where
  "estimations_low_cal =
     [''lettuce'', ''cucumber'', ''tomato'', ''celery'', ''broth'', ''water'', ''tea'']"

fun estimate_loop :: "string list \<Rightarrow> nutrition \<Rightarrow> nutrition" where
  "estimate_loop [] estimated = estimated"
| "estimate_loop (ingredient # rest) estimated =
     (let ingredient_lower = lower ingredient in
      if any_in estimations_protein ingredient_lower then
        estimate_loop rest
          (estimated\<lparr>calories := calories estimated + 100, protein := protein estimated + 15\<rparr>)
      else if any_in estimations_high_carb ingredient_lower then
        estimate_loop rest
          (estimated\<lparr>calories := calories estimated + 150, carbs := carbs estimated + 30\<rparr>)
      else if any_in estimations_high_fat ingredient_lower then
        estimate_loop rest
          (estimated\<lparr>calories := calories estimated + 120, fat := fat estimated + 12\<rparr>)
      else if any_in estimations_low_cal ingredient_lower then
        estimate_loop rest
          (estimated\<lparr>calories := calories estimated + 25, fiber := fiber estimated + 3\<rparr>)
      else if any_in estimations_high_fiber ingredient_lower then
        estimate_loop rest
          (estimated\<lparr>calories := calories estimated + 50, fiber := fiber estimated + 8\<rparr>)
      else
        estimate_loop rest
          (estimated\<lparr>calories := calories estimated + 75, carbs := carbs estimated + 15\<rparr>))"

definition estimate_nutrition :: "string list \<Rightarrow> nutrition" where
  "estimate_nutrition ingredients = estimate_loop ingredients zero_nutrition"

record nutrition_state =
  nutrition_results :: "(api \<times> nutrition) list"
  n_sources_tried :: "string list"
  n_health :: api_health
  n_called :: "api list"

type_synonym nutrition_env = "api \<Rightarrow> string list \<Rightarrow> nutrition outcome"

definition nutrition_apis :: "api list" where
  "nutrition_apis = [usda, fatsecret]"

fun nutrition_loop ::
  "nutrition_env \<Rightarrow> real \<Rightarrow> string list \<Rightarrow> api list \<Rightarrow> nutrition_state \<Rightarrow> nutrition_state"
  where
  "nutrition_loop env now ingredients [] s = s"
| "nutrition_loop env now ingredients (a # rest) s =
     (if \<not> available (n_health s a) then
        nutrition_loop env now ingredients rest
          (s\<lparr>n_sources_tried := n_sources_tried s @ [api_name a @ ''(unavailable)'']\<rparr>)
      else
        (case env a ingredients of
           Returns result \<Rightarrow>
             (let s1 = s\<lparr>n_called := n_called s @ [a],
                          n_sources_tried := n_sources_tried s @ [api_name a]\<rparr>
              in if any_values result then
                   s1\<lparr>nutrition_results := nutrition_results s1 @ [(a, result)],
                      n_health := (n_health s1)
                        (a := (n_health s1 a)\<lparr>last_success := now, failures := 0\<rparr>)\<rparr>
                 else nutrition_loop env now ingredients rest s1)
         | Raises \<Rightarrow>
             nutrition_loop env now ingredients rest
               (s\<lparr>n_called := n_called s @ [a],
                  n_sources_tried := n_sources_tried s @ [api_name a @ ''(failed)''],
                  n_health := (n_health s)
                    (a := (n_health s a)\<lparr>failures := failures (n_health s a) + 1\<rparr>)\<rparr>)))"

record nutrition_reply =
  reply_nutrition :: nutrition
  reply_sources_tried :: "string list"
  reply_cost :: string
  reply_health :: api_health
  reply_called :: "api list"

definition get_nutrition_with_fallback ::
  "nutrition_env \<Rightarrow> real \<Rightarrow> api_health \<Rightarrow> string list \<Rightarrow> nutrition_reply" where
  "get_nutrition_with_fallback env now h ingredients =
     (let s = nutrition_loop env now ingredients nutrition_apis
                \<lparr>nutrition_results = [], n_sources_tried = [], n_health = h, n_called = []\<rparr>;
          final_nutrition = merge_nutrition_data (nutrition_results s)
      in if \<not> any_values final_nutrition then
           \<lparr>reply_nutrition = estimate_nutrition ingredients,
            reply_sources_tried = n_sources_tried s @ [''estimated''],
            reply_cost = ''$0'', reply_health = n_health s, reply_called = n_called s\<rparr>
         else
           \<lparr>reply_nutrition = final_nutrition,
            reply_sources_tried = n_sources_tried s,
            reply_cost = ''$0'', reply_health = n_health s, reply_called = n_called s\<rparr>)"

section \<open>Recipe nutrition analysis\<close>

datatype error = ZeroDivisionError

text \<open>
  Python carries out \<open>/\<close> and \<open>*\<close> on these numbers in floating point, so each
  result is rounded. The rounding is not fixed here: the two operations are a parameter of
  every definition that divides or multiplies, and what is proved holds for whatever they
  return. The numbers themselves are finite and read as reals, which is what the
  comparisons of the code see. \<open>exact_arith\<close> is the instance without rounding, used
  in examples whose values floating point represents exactly.
\<close>

record arith =
  py_truediv :: "real \<Rightarrow> real \<Rightarrow> real"
  py_mul :: "real \<Rightarrow> real \<Rightarrow> real"

definition exact_arith :: arith where
  "exact_arith = \<lparr>py_truediv = (\<lambda>x y. x / y), py_mul = (\<lambda>x y. x * y)\<rparr>"

text \<open>
  What \<open>analyze_nutrition\<close> reads from \<open>recipe_data\<close>: \<open>rd_nutrients\<close> is the list of
  (name, amount) pairs of \<open>nutrition['nutrients']\<close> (empty when the recipe has no nutrition
  dict, an empty one, or one without that key), \<open>rd_servings\<close> is \<open>servings\<close> (1 when the
  key is missing), \<open>rd_ingredients\<close> and \<open>rd_category\<close> likewise with their defaults.
\<close>

record recipe_data =
  rd_nutrients :: "(string \<times> real) list"
  rd_servings :: int
  rd_ingredients :: "string list"
  rd_category :: string

record analysis =
  calories_per_serving :: real
  protein_per_serving :: real
  carbs_per_serving :: real
  fat_per_serving :: real
  health_score :: int
  recommendations :: "string list"
  analysis_source :: string
  analysis_method :: "string option"
  data_quality :: "string option"

definition initial_analysis :: analysis where
  "initial_analysis =
     \<lparr>calories_per_serving = 0, protein_per_serving = 0, carbs_per_serving = 0,
      fat_per_serving = 0, health_score = 0, recommendations = [],
      analysis_source = ''FREE MCP'', analysis_method = None, data_quality = None\<rparr>"

fun nutrients_loop ::
  "arith \<Rightarrow> int \<Rightarrow> (string \<times> real) list \<Rightarrow> analysis \<Rightarrow> error + analysis" where
  \<comment> \<open>\<open>amount / servings\<close> raises when \<open>servings\<close> is 0\<close>
  "nutrients_loop ar servings [] an = Inr an"
| "nutrients_loop ar servings ((name, amount) # rest) an =
     (if contains ''Calories'' name then
        (if servings = 0 then Inl ZeroDivisionError
         else nutrients_loop ar servings rest
                (an\<lparr>calories_per_serving := py_truediv ar amount (real_of_int servings)\<rparr>))
      else if contains ''Protein'' name then
        (if servings = 0 then Inl ZeroDivisionError
         else nutrients_loop ar servings rest
                (an\<lparr>protein_per_serving := py_truediv ar amount (real_of_int servings)\<rparr>))
      else if contains ''Carbohydrates'' name then
        (if servings = 0 then Inl ZeroDivisionError
         else nutrients_loop ar servings rest
                (an\<lparr>carbs_per_serving := py_truediv ar amount (real_of_int servings)\<rparr>))
      else if contains ''Fat'' name then
        (if servings = 0 then Inl ZeroDivisionError
         else nutrients_loop ar servings rest
                (an\<lparr>fat_per_serving := py_truediv ar amount (real_of_int servings)\<rparr>))
      else nutrients_loop ar servings rest an)"

definition category_estimate :: "string \<Rightarrow> analysis \<Rightarrow> analysis" where
  "category_estimate category0 an =
     (let category = lower category0 in
      if contains ''dessert'' category \<or> contains ''cake'' category \<or> contains ''cookie'' category
      then an\<lparr>calories_per_serving := 400, carbs_per_serving := 60, fat_per_serving := 20\<rparr>
      else if contains ''salad'' category \<or> contains ''soup'' category
      then an\<lparr>calories_per_serving := 250, carbs_per_serving := 20, fat_per_serving := 10\<rparr>
      else an\<lparr>calories_per_serving := 350, carbs_per_serving := 30, fat_per_serving := 15\<rparr>)"

definition health_scoring :: "arith \<Rightarrow> analysis \<Rightarrow> analysis" where
  \<comment> \<open>the scoring block of \<open>analyze_nutrition\<close>, from "Generate comprehensive health score"
      to the recommendations\<close>
  "health_scoring ar an =
     (let calories = calories_per_serving an;
          protein = protein_per_serving an;
          carbs = carbs_per_serving an;
          fat = fat_per_serving an
      in if calories > 0 then
           (let total_calories = calories;
                protein_cal = py_mul ar protein 4;
                carb_cal = py_mul ar carbs 4;
                fat_cal = py_mul ar fat 9;
                protein_pct = py_mul ar (py_truediv ar protein_cal total_calories) 100;
                carb_pct = py_mul ar (py_truediv ar carb_cal total_calories) 100;
                fat_pct = py_mul ar (py_truediv ar fat_cal total_calories) 100;
                balance_score =
                  (if 10 \<le> protein_pct \<and> protein_pct \<le> 30 then 25 else 0)
                  + (if carb_pct \<le> 65 then 25 else 0)
                  + (if fat_pct \<le> 35 then 25 else (0::int));
                calorie_score =
                  (if 200 \<le> calories \<and> calories \<le> 600 then 25
                   else if calories < 200 then 15
                   else if calories > 800 then 10
                   else (20::int));
                rec1 = (if balance_score \<ge> 50 then ''Well-balanced macronutrients!''
                        else ''Consider balancing protein, carbs, and fat'');
                rec2 = (if calorie_score \<ge> 20 then ''Appropriate calorie content''
                        else if calories < 200 then ''May need more calories for satiety''
                        else ''High calorie meal - watch portions'')
            in an\<lparr>health_score := balance_score + calorie_score,
                  recommendations := recommendations an @ [rec1, rec2]\<rparr>)
         else an)"

definition analyze_nutrition ::
  "arith \<Rightarrow> nutrition_env \<Rightarrow> real \<Rightarrow> api_health \<Rightarrow> recipe_data
     \<Rightarrow> error + (analysis \<times> api_health \<times> api list)" where
  "analyze_nutrition ar env now h recipe_data =
     (let servings = rd_servings recipe_data in
      case nutrients_loop ar servings (rd_nutrients recipe_data) initial_analysis of
        Inl e \<Rightarrow> Inl e
      | Inr an \<Rightarrow>
          (let (an1, h1, calls) =
                 (if calories_per_serving an = 0 then
                    (let ingredients = rd_ingredients recipe_data in
                     if ingredients \<noteq> [] then
                       (let reply = get_nutrition_with_fallback env now h ingredients;
                            nutrition_data = reply_nutrition reply;
                            d = real_of_int (max servings 1)
                        in (an\<lparr>calories_per_serving := py_truediv ar (calories nutrition_data) d,
                               protein_per_serving := py_truediv ar (protein nutrition_data) d,
                               carbs_per_serving := py_truediv ar (carbs nutrition_data) d,
                               fat_per_serving := py_truediv ar (fat nutrition_data) d\<rparr>,
                            reply_health reply, reply_called reply))
                     else (category_estimate (rd_category recipe_data) an, h, []))
                  else (an, h, []));
               an2 = health_scoring ar an1
           in Inr (an2\<lparr>analysis_method := Some ''FREE MCP with USDA + TheMealDB'',
                        data_quality := Some ''High (Government + Professional sources)''\<rparr>,
                   h1, calls)))"

section \<open>The output guard of the generate stage\<close>

definition trimmed_suffix :: string where
  "trimmed_suffix = [CHR 0x0A, CHR 0x0A] @ ''...(trimmed)''"

definition max_chars_of :: "int option \<Rightarrow> int" where
  \<comment> \<open>\<open>LLM_MAX_CHARS\<close> read as an int: \<open>None\<close> when it is unset or \<open>int\<close> raises ValueError\<close>
  "max_chars_of v = (case v of None \<Rightarrow> 2500 | Some n \<Rightarrow> n)"

definition generate :: "int \<Rightarrow> string \<Rightarrow> string" where
  \<comment> \<open>the end of \<open>_generate\<close>: from the text of the LLM's response to \<open>state["answer"]\<close>\<close>
  "generate max_chars resp =
     (let answer = strip resp in
      if int (length answer) > max_chars
      then rstrip (py_take max_chars answer) @ trimmed_suffix
      else answer)"

section \<open>Reference definitions for the stated properties\<close>

subsection \<open>Estimator: one bucket per ingredient\<close>

text \<open>
  The keyword buckets of the estimator, the contribution each adds, and the estimate obtained
  when every ingredient falls into the first bucket of a given priority list that matches it.
\<close>

datatype bucket = Protein_rich | High_carb | High_fat | High_fiber | Low_calorie | Other

fun bucket_keywords :: "bucket \<Rightarrow> string list" where
  "bucket_keywords Protein_rich = estimations_protein"
| "bucket_keywords High_carb = estimations_high_carb"
| "bucket_keywords High_fat = estimations_high_fat"
| "bucket_keywords High_fiber = estimations_high_fiber"
| "bucket_keywords Low_calorie = estimations_low_cal"
| "bucket_keywords Other = []"

fun contribution :: "bucket \<Rightarrow> nutrition" where
  "contribution Protein_rich = zero_nutrition\<lparr>calories := 100, protein := 15\<rparr>"
| "contribution High_carb = zero_nutrition\<lparr>calories := 150, carbs := 30\<rparr>"
| "contribution High_fat = zero_nutrition\<lparr>calories := 120, fat := 12\<rparr>"
| "contribution High_fiber = zero_nutrition\<lparr>calories := 50, fiber := 8\<rparr>"
| "contribution Low_calorie = zero_nutrition\<lparr>calories := 25, fiber := 3\<rparr>"
| "contribution Other = zero_nutrition\<lparr>calories := 75, carbs := 15\<rparr>"

definition first_bucket :: "bucket list \<Rightarrow> string \<Rightarrow> bucket" where
  "first_bucket order s =
     (case find (\<lambda>b. any_in (bucket_keywords b) s) order of Some b \<Rightarrow> b | None \<Rightarrow> Other)"

definition add_nutrition :: "nutrition \<Rightarrow> nutrition \<Rightarrow> nutrition" where
  "add_nutrition x y =
     \<lparr>calories = calories x + calories y, protein = protein x + protein y,
      carbs = carbs x + carbs y, fat = fat x + fat y, fiber = fiber x + fiber y\<rparr>"

definition estimate_in_order :: "bucket list \<Rightarrow> string list \<Rightarrow> nutrition" where
  "estimate_in_order order ingredients =
     foldl add_nutrition zero_nutrition
       (map (\<lambda>ingredient. contribution (first_bucket order (lower ingredient))) ingredients)"

text \<open>
  \<open>claimed_order\<close> is the priority order as the specification words it;
  \<open>source_order\<close> is the order of the \<open>if\<close>/\<open>elif\<close> chain.
\<close>

definition claimed_order :: "bucket list" where
  "claimed_order = [Protein_rich, High_carb, High_fat, High_fiber, Low_calorie]"

definition source_order :: "bucket list" where
  "source_order = [Protein_rich, High_carb, High_fat, Low_calorie, High_fiber]"

subsection \<open>Merge: the largest positive reading\<close>

text \<open>
  \<open>max_positive vs\<close> is the maximum of the positive values among \<open>vs\<close>, and zero when
  there is none. \<open>keep_larger\<close> is one comparison of the merge loop.
\<close>

definition max_positive :: "real list \<Rightarrow> real" where
  "max_positive vs =
     (let ps = filter (\<lambda>v. v > 0) vs in if ps = [] then 0 else Max (set ps))"

definition nonneg :: "nutrition \<Rightarrow> bool" where
  "nonneg d = (0 \<le> calories d \<and> 0 \<le> protein d \<and> 0 \<le> carbs d \<and> 0 \<le> fat d \<and> 0 \<le> fiber d)"

definition keep_larger :: "real \<Rightarrow> real \<Rightarrow> real" where
  "keep_larger v m = (if v > m then v else m)"

subsection \<open>Health score: balance points and calorie band\<close>

text \<open>
  The two parts of the score as the specification words them, on the percentages of the
  calories that protein (4 kcal/g), carbohydrates (4 kcal/g) and fat (9 kcal/g) make up.
\<close>

definition balance_points :: "real \<Rightarrow> real \<Rightarrow> real \<Rightarrow> int" where
  "balance_points protein_pct carb_pct fat_pct =
     (if 10 \<le> protein_pct \<and> protein_pct \<le> 30 then 25 else 0)
     + (if carb_pct \<le> 65 then 25 else 0)
     + (if fat_pct \<le> 35 then 25 else 0)"

definition calorie_band_points :: "real \<Rightarrow> int" where
  "calorie_band_points c =
     (if 200 \<le> c \<and> c \<le> 600 then 25 else if c < 200 then 15 else if c > 800 then 10 else 20)"

definition macro_pct :: "arith \<Rightarrow> real \<Rightarrow> real \<Rightarrow> real \<Rightarrow> real" where
  \<comment> \<open>the share of the calories that \<open>grams\<close> of a macronutrient worth \<open>kcal_per_gram\<close> make up,
      in the arithmetic of the code\<close>
  "macro_pct ar kcal_per_gram grams total_calories =
     py_mul ar (py_truediv ar (py_mul ar grams kcal_per_gram) total_calories) 100"

subsection \<open>Search: the attempts of one invocation\<close>

text \<open>
  A provider succeeds when it is available and its call returns a non-empty list. The
  providers reached are those before the first success and the successful one itself;
  each leaves one entry in the attempt list, and the fallback adds one when none succeeds.
\<close>

definition returns_results :: "'a list outcome \<Rightarrow> bool" where
  "returns_results out = (case out of Returns rs \<Rightarrow> rs \<noteq> [] | Raises \<Rightarrow> False)"

definition succeeds :: "api_health \<Rightarrow> search_env \<Rightarrow> string \<Rightarrow> int \<Rightarrow> api \<Rightarrow> bool" where
  "succeeds h env query max_results a =
     (available (h a) \<and> returns_results (env a query max_results))"

definition attempted :: "(api \<Rightarrow> bool) \<Rightarrow> api list \<Rightarrow> api list" where
  "attempted ok ps = takeWhile (\<lambda>a. \<not> ok a) ps @ take 1 (dropWhile (\<lambda>a. \<not> ok a) ps)"

definition provenance_entry :: "api_health \<Rightarrow> search_env \<Rightarrow> string \<Rightarrow> int \<Rightarrow> api \<Rightarrow> string" where
  "provenance_entry h env query max_results a =
     (if available (h a) then
        (case env a query max_results of
           Raises \<Rightarrow> api_name a @ ''(failed)''
         | Returns rs \<Rightarrow> api_name a)
      else api_name a @ ''(unavailable)'')"

definition attempt_list :: "api_health \<Rightarrow> search_env \<Rightarrow> string \<Rightarrow> int \<Rightarrow> string list" where
  "attempt_list h env query max_results =
     map (provenance_entry h env query max_results)
       (attempted (succeeds h env query max_results) api_priority)
     @ (if list_ex (succeeds h env query max_results) api_priority then [] else [''fallback''])"

definition winner_results :: "api_health \<Rightarrow> search_env \<Rightarrow> string \<Rightarrow> int \<Rightarrow> api list \<Rightarrow> recipe list" where
  "winner_results h env query max_results ps =
     (case find (succeeds h env query max_results) ps of
        None \<Rightarrow> []
      | Some a \<Rightarrow> (case env a query max_results of Returns rs \<Rightarrow> rs | Raises \<Rightarrow> []))"

text \<open>
  The match of the built-in table as the specification words it: the keyword of an entry, or
  one of its ingredients, is a substring of the lower-cased query.
\<close>

definition keyword_or_ingredient_in_query :: "string \<Rightarrow> string \<times> recipe \<Rightarrow> bool" where
  "keyword_or_ingredient_in_query query kr =
     (sublist (fst kr) (lower query) \<or>
      (\<exists>ingredient \<in> set (str_items ((snd kr) ''ingredients'')). sublist ingredient (lower query)))"

subsection \<open>Health entries after a recorded outcome\<close>

text \<open>
  A nutrition call is usable when it returns a record with a non-zero value. The three
  functions below are the updates of a health entry that the two loops make: a failure in
  the search path, a failure in the nutrition path, and a success in either.
\<close>

definition usable :: "nutrition outcome \<Rightarrow> bool" where
  "usable out = (case out of Returns d \<Rightarrow> any_values d | Raises \<Rightarrow> False)"

definition failure_recorded_search :: "health_entry \<Rightarrow> health_entry" where
  "failure_recorded_search e =
     (if failures e + 1 \<ge> 3 then e\<lparr>failures := failures e + 1, available := False\<rparr>
      else e\<lparr>failures := failures e + 1\<rparr>)"

definition failure_recorded_nutrition :: "health_entry \<Rightarrow> health_entry" where
  "failure_recorded_nutrition e = e\<lparr>failures := failures e + 1\<rparr>"

definition success_recorded :: "real \<Rightarrow> health_entry \<Rightarrow> health_entry" where
  "success_recorded now e = e\<lparr>last_success := now, failures := 0\<rparr>"

section \<open>Facts about strings\<close>

lemma contains_sublist: "contains w s \<longleftrightarrow> sublist w s"
  by (induction s) (auto simp: sublist_Cons_right)

section \<open>Properties of the recipe search\<close>

lemma search_loop_spec:
  "distinct ps \<Longrightarrow> \<forall>c\<in>set ps. available (health s c) = available (h0 c) \<Longrightarrow>
   sources_tried (search_loop env now q n ps s) =
     sources_tried s @ map (provenance_entry h0 env q n) (attempted (succeeds h0 env q n) ps)
   \<and> called (search_loop env now q n ps s) =
     called s @ filter (\<lambda>a. available (h0 a)) (attempted (succeeds h0 env q n) ps)
   \<and> recipes (search_loop env now q n ps s) = recipes s @ winner_results h0 env q n ps"
proof (induction ps arbitrary: s)
  case Nil
  show ?case by (simp add: attempted_def winner_results_def)
next
  case (Cons a rest)
  have d: "distinct rest" and nin: "a \<notin> set rest" using Cons.prems(1) by simp_all
  have av: "available (health s a) = available (h0 a)" using Cons.prems(2) by simp
  have rest_av: "\<forall>c\<in>set rest. available (health s c) = available (h0 c)"
    using Cons.prems(2) by simp
  have rest_upd: "\<forall>c\<in>set rest. available (((health s)(a := e)) c) = available (h0 c)" for e
    using rest_av nin by auto
  note IH = Cons.IH [OF d]
  show ?case
  proof (cases "available (h0 a)")
    case False
    let ?s' = "s\<lparr>sources_tried := sources_tried s @ [api_name a @ ''(unavailable)'']\<rparr>"
    have "\<forall>c\<in>set rest. available (health ?s' c) = available (h0 c)"
      using rest_av by simp
    from IH [OF this] show ?thesis
      using av False
      by (simp add: attempted_def succeeds_def provenance_entry_def winner_results_def)
  next
    case True
    show ?thesis
    proof (cases "env a q n")
      case Raises
      let ?n = "failures (health s a) + 1"
      let ?h1 = "(health s)(a := (health s a)\<lparr>failures := ?n\<rparr>)"
      let ?h2 = "if ?n \<ge> 3 then ?h1(a := (?h1 a)\<lparr>available := False\<rparr>) else ?h1"
      let ?s' = "s\<lparr>called := called s @ [a],
                    sources_tried := sources_tried s @ [api_name a @ ''(failed)''],
                    health := ?h2\<rparr>"
      have "\<forall>c\<in>set rest. available (health ?s' c) = available (h0 c)"
        using rest_av nin by auto
      from IH [OF this] show ?thesis
        using av True Raises
        by (simp add: attempted_def succeeds_def provenance_entry_def winner_results_def
            returns_results_def Let_def)
    next
      case (Returns rs)
      let ?s1 = "s\<lparr>called := called s @ [a], sources_tried := sources_tried s @ [api_name a]\<rparr>"
      have "\<forall>c\<in>set rest. available (health ?s1 c) = available (h0 c)"
        using rest_av by simp
      from IH [OF this] show ?thesis
        using av True Returns
        by (simp add: attempted_def succeeds_def provenance_entry_def winner_results_def
            returns_results_def Let_def)
    qed
  qed
qed

lemma attempted_prefix: "prefix (attempted ok ps) ps"
proof -
  have "prefix (takeWhile (\<lambda>a. \<not> ok a) ps @ take 1 (dropWhile (\<lambda>a. \<not> ok a) ps))
          (takeWhile (\<lambda>a. \<not> ok a) ps @ dropWhile (\<lambda>a. \<not> ok a) ps)"
    by (simp only: same_prefix_prefix take_is_prefix)
  then show ?thesis by (simp add: attempted_def)
qed

lemma winner_results_empty:
  "winner_results h env q n ps = [] \<longleftrightarrow> \<not> list_ex (succeeds h env q n) ps"
proof (cases "find (succeeds h env q n) ps")
  case None
  then have "\<not> list_ex (succeeds h env q n) ps"
    by (simp add: find_None_iff list_ex_iff)
  then show ?thesis by (simp add: winner_results_def None)
next
  case (Some a)
  then have s: "succeeds h env q n a" and m: "a \<in> set ps"
    by (auto simp: find_Some_iff)
  from s have "winner_results h env q n ps \<noteq> []"
    by (auto simp: winner_results_def Some succeeds_def returns_results_def split: outcome.splits)
  with m s show ?thesis by (auto simp: list_ex_iff)
qed

lemma set_py_take: "set (py_take n xs) \<subseteq> set xs"
  by (simp add: py_take_def set_take_subset)

lemma search_loop_priority:
  "sources_tried (search_loop env now q n api_priority
       \<lparr>recipes = [], sources_tried = [], health = h, called = []\<rparr>) =
     map (provenance_entry h env q n) (attempted (succeeds h env q n) api_priority)
   \<and> called (search_loop env now q n api_priority
       \<lparr>recipes = [], sources_tried = [], health = h, called = []\<rparr>) =
     filter (\<lambda>a. available (h a)) (attempted (succeeds h env q n) api_priority)
   \<and> recipes (search_loop env now q n api_priority
       \<lparr>recipes = [], sources_tried = [], health = h, called = []\<rparr>) =
     winner_results h env q n api_priority"
  using search_loop_spec [of api_priority "\<lparr>recipes = [], sources_tried = [], health = h, called = []\<rparr>" h env now q n]
  by (simp add: api_priority_def)

lemma search_result:
  "sources_tried (search_recipes_with_fallback env now h q n) = attempt_list h env q n"
  "called (search_recipes_with_fallback env now h q n) =
     filter (\<lambda>a. available (h a)) (attempted (succeeds h env q n) api_priority)"
  "recipes (search_recipes_with_fallback env now h q n) =
     py_take n (map (tag (attempt_list h env q n))
       (if list_ex (succeeds h env q n) api_priority
        then winner_results h env q n api_priority
        else get_fallback_recipes q n))"
  using winner_results_empty [of h env q n api_priority]
  by (simp_all add: search_recipes_with_fallback_def Let_def search_loop_priority attempt_list_def)

lemma tag_lookup:
  "tag st r ''_sources_tried'' = Some (VList (map VStr st))"
  "tag st r ''_fallback_used'' = Some (VBool (length st > 1))"
  by (simp_all add: tag_def)

text \<open>
  Claim C1. One search invocation reaches the providers in the order of \<open>api_priority\<close>, up to
  and including the first one that is available and returns a non-empty list. It calls
  exactly the available ones among those reached, so an unavailable provider is never
  called and leaves its \<open>(unavailable)\<close> entry. Every returned record carries the whole
  attempt list under \<open>_sources_tried\<close> and, under \<open>_fallback_used\<close>, whether that list has
  more than one entry. When a provider succeeds the returned records are its records, tagged
  and cut to \<open>max_results\<close>.
\<close>

theorem search_first_success_wins:
  "prefix (attempted (succeeds h env q n) api_priority) api_priority
   \<and> called (search_recipes_with_fallback env now h q n) =
       filter (\<lambda>a. available (h a)) (attempted (succeeds h env q n) api_priority)
   \<and> sources_tried (search_recipes_with_fallback env now h q n) = attempt_list h env q n
   \<and> (\<forall>r \<in> set (recipes (search_recipes_with_fallback env now h q n)).
        r ''_sources_tried'' = Some (VList (map VStr (attempt_list h env q n)))
        \<and> r ''_fallback_used'' = Some (VBool (length (attempt_list h env q n) > 1)))
   \<and> (list_ex (succeeds h env q n) api_priority \<longrightarrow>
        recipes (search_recipes_with_fallback env now h q n) =
          py_take n (map (tag (attempt_list h env q n))
            (winner_results h env q n api_priority)))"
proof -
  have "r ''_sources_tried'' = Some (VList (map VStr (attempt_list h env q n)))
        \<and> r ''_fallback_used'' = Some (VBool (length (attempt_list h env q n) > 1))"
    if "r \<in> set (recipes (search_recipes_with_fallback env now h q n))" for r
  proof -
    from that set_py_take obtain x where "r = tag (attempt_list h env q n) x"
      unfolding search_result(3) by fastforce
    then show ?thesis by (simp only: tag_lookup simp_thms)
  qed
  then show ?thesis
    by (simp add: attempted_prefix search_result)
qed

theorem search_first_success_wins_witness:
  "called (search_recipes_with_fallback
       (\<lambda>a query max_results. Returns [[''title'' \<mapsto> VStr ''Soup'']]) 7
       ((init_api_health 0)(themealdb := \<lparr>available = False, last_success = 0, failures = 3\<rparr>))
       ''soup'' 10) = [spoonacular]
   \<and> sources_tried (search_recipes_with_fallback
       (\<lambda>a query max_results. Returns [[''title'' \<mapsto> VStr ''Soup'']]) 7
       ((init_api_health 0)(themealdb := \<lparr>available = False, last_success = 0, failures = 3\<rparr>))
       ''soup'' 10) = [''themealdb(unavailable)'', ''spoonacular'']
   \<and> recipes (search_recipes_with_fallback
       (\<lambda>a query max_results. Returns [[''title'' \<mapsto> VStr ''Soup'']]) 7
       ((init_api_health 0)(themealdb := \<lparr>available = False, last_success = 0, failures = 3\<rparr>))
       ''soup'' 10)
     = [tag [''themealdb(unavailable)'', ''spoonacular''] [''title'' \<mapsto> VStr ''Soup'']]"
  using search_first_success_wins
    [of "(init_api_health 0)(themealdb := \<lparr>available = False, last_success = 0, failures = 3\<rparr>)"
        "\<lambda>a query max_results. Returns [[''title'' \<mapsto> VStr ''Soup'']]" "''soup''" 10 7]
  by (simp add: attempt_list_def attempted_def succeeds_def returns_results_def
      provenance_entry_def winner_results_def api_priority_def init_api_health_def py_take_def)

lemma search_loop_health_other:
  "a \<notin> set ps \<Longrightarrow> health (search_loop env now q n ps s) a = health s a"
  by (induction ps arbitrary: s) (auto simp: Let_def split: outcome.splits)

lemma search_loop_health_empty:
  "env a q n = Returns [] \<Longrightarrow> health (search_loop env now q n ps s) a = health s a"
  by (induction ps arbitrary: s) (auto simp: Let_def split: outcome.splits)

lemma search_loop_health_cases:
  "distinct ps \<Longrightarrow> health s a = e \<Longrightarrow>
   health (search_loop env now q n ps s) a = e
   \<or> (env a q n = Raises \<and>
       health (search_loop env now q n ps s) a = failure_recorded_search e)
   \<or> (returns_results (env a q n) \<and>
       health (search_loop env now q n ps s) a = success_recorded now e)"
proof (induction ps arbitrary: s)
  case Nil
  then show ?case by simp
next
  case (Cons b rest)
  have d: "distinct rest" using Cons.prems(1) by simp
  note IH = Cons.IH [OF d]
  show ?case
  proof (cases "b = a")
    case True
    then have "a \<notin> set rest" using Cons.prems(1) by simp
    then show ?thesis
      using True Cons.prems(2)
      by (auto simp: search_loop_health_other Let_def failure_recorded_search_def
          success_recorded_def returns_results_def split: outcome.splits)
  next
    case False
    show ?thesis
    proof (cases "available (health s b)")
      case unavailable: False
      let ?s' = "s\<lparr>sources_tried := sources_tried s @ [api_name b @ ''(unavailable)'']\<rparr>"
      have "health ?s' a = e" using Cons.prems(2) by simp
      from IH [OF this] show ?thesis using unavailable by simp
    next
      case available: True
      show ?thesis
      proof (cases "env b q n")
        case Raises
        let ?n = "failures (health s b) + 1"
        let ?h1 = "(health s)(b := (health s b)\<lparr>failures := ?n\<rparr>)"
        let ?h2 = "if ?n \<ge> 3 then ?h1(b := (?h1 b)\<lparr>available := False\<rparr>) else ?h1"
        let ?s' = "s\<lparr>called := called s @ [b],
                      sources_tried := sources_tried s @ [api_name b @ ''(failed)''],
                      health := ?h2\<rparr>"
        have "health ?s' a = e" using Cons.prems(2) False by simp
        from IH [OF this] show ?thesis using available Raises by (simp add: Let_def)
      next
        case (Returns rs)
        let ?s1 = "s\<lparr>called := called s @ [b], sources_tried := sources_tried s @ [api_name b]\<rparr>"
        have "health ?s1 a = e" using Cons.prems(2) by simp
        from IH [OF this] show ?thesis
          using available Returns False Cons.prems(2) by (simp add: Let_def)
      qed
    qed
  qed
qed

section \<open>Properties of the exhausted search\<close>

lemma fallback_match_spec:
  "fallback_match (lower query) kr = keyword_or_ingredient_in_query query kr"
  by (simp add: fallback_match_def keyword_or_ingredient_in_query_def any_in_def
      contains_sublist list_ex_iff)

lemma get_fallback_recipes_nonempty:
  "1 \<le> n \<Longrightarrow> get_fallback_recipes q n \<noteq> []"
  by (simp add: get_fallback_recipes_def Let_def py_take_def)

lemma get_fallback_recipes_from_table:
  assumes "r \<in> set (get_fallback_recipes q n)"
  shows "\<exists>kr \<in> set fallback_recipes. r = snd kr \<and>
           (if list_ex (fallback_match (lower q)) fallback_recipes
            then fallback_match (lower q) kr
            else kr = fallback_recipes ! 0)"
proof (cases "list_ex (fallback_match (lower q)) fallback_recipes")
  case True
  then have ne: "filter (fallback_match (lower q)) fallback_recipes \<noteq> []"
    by (simp add: filter_empty_conv list_ex_iff)
  with assms have "r \<in> set (py_take n (map snd (filter (fallback_match (lower q)) fallback_recipes)))"
    by (simp add: get_fallback_recipes_def Let_def)
  with set_py_take have "r \<in> snd ` set (filter (fallback_match (lower q)) fallback_recipes)"
    by fastforce
  then obtain kr where kr: "kr \<in> set fallback_recipes" "fallback_match (lower q) kr" "r = snd kr"
    by auto
  show ?thesis
  proof (rule bexI [of _ kr])
    show "r = snd kr \<and>
           (if list_ex (fallback_match (lower q)) fallback_recipes
            then fallback_match (lower q) kr
            else kr = fallback_recipes ! 0)"
      using kr(2,3) True by simp
  qed (rule kr(1))
next
  case False
  then have "filter (fallback_match (lower q)) fallback_recipes = []"
    by (simp add: filter_empty_conv list_ex_iff)
  with assms have r: "r = snd (fallback_recipes ! 0)"
    by (simp add: get_fallback_recipes_def Let_def)
  have "0 < length fallback_recipes"
    by (simp add: fallback_recipes_def)
  then have m: "fallback_recipes ! 0 \<in> set fallback_recipes"
    by (rule nth_mem)
  show ?thesis
  proof (rule bexI [of _ "fallback_recipes ! 0"])
    show "r = snd (fallback_recipes ! 0) \<and>
           (if list_ex (fallback_match (lower q)) fallback_recipes
            then fallback_match (lower q) (fallback_recipes ! 0)
            else fallback_recipes ! 0 = fallback_recipes ! 0)"
      using r False by simp
  qed (rule m)
qed

lemma exhausted_attempts:
  assumes "\<forall>a \<in> set api_priority. \<not> available (h a) \<or> env a q n = Raises"
  shows "\<not> list_ex (succeeds h env q n) api_priority"
    and "length (attempt_list h env q n) = 3"
    and "last (attempt_list h env q n) = ''fallback''"
proof -
  have no: "\<not> succeeds h env q n a" if "a \<in> set api_priority" for a
    using assms that by (auto simp: succeeds_def returns_results_def)
  then show l: "\<not> list_ex (succeeds h env q n) api_priority"
    by (simp add: list_ex_iff)
  have "attempted (succeeds h env q n) api_priority = api_priority"
    using no by (simp add: attempted_def api_priority_def)
  then show "length (attempt_list h env q n) = 3" "last (attempt_list h env q n) = ''fallback''"
    using l by (simp_all add: attempt_list_def api_priority_def)
qed

text \<open>
  Claim C3, as amended. When every provider of \<open>api_priority\<close> is skipped as unavailable
  or raises, and the result cap is at least 1, the search returns a non-empty list. Its
  attempt list ends with \<open>fallback\<close>, and every returned record has \<open>_fallback_used\<close> set
  and is a tagged entry of the built-in table: one whose keyword or one of whose ingredients
  occurs in the lower-cased query, or the first entry of the table when no entry matches.
  The function has no raising path, so nothing is surfaced as an error.
\<close>

theorem exhausted_search_falls_back:
  assumes "1 \<le> n"
    and "\<forall>a \<in> set api_priority. \<not> available (h a) \<or> env a q n = Raises"
  shows "recipes (search_recipes_with_fallback env now h q n) \<noteq> []
       \<and> last (sources_tried (search_recipes_with_fallback env now h q n)) = ''fallback''
       \<and> (\<forall>r \<in> set (recipes (search_recipes_with_fallback env now h q n)).
            r ''_fallback_used'' = Some (VBool True)
            \<and> (\<exists>kr \<in> set fallback_recipes.
                 r = tag (sources_tried (search_recipes_with_fallback env now h q n)) (snd kr)
                 \<and> (if list_ex (keyword_or_ingredient_in_query q) fallback_recipes
                    then keyword_or_ingredient_in_query q kr
                    else kr = fallback_recipes ! 0)))"
proof -
  let ?st = "attempt_list h env q n"
  note ex = exhausted_attempts [of h env q n, OF assms(2)]
  have rec: "recipes (search_recipes_with_fallback env now h q n) =
               py_take n (map (tag ?st) (get_fallback_recipes q n))"
    using ex(1) by (simp add: search_result)
  have st: "sources_tried (search_recipes_with_fallback env now h q n) = ?st"
    by (simp add: search_result)
  have "get_fallback_recipes q n \<noteq> []"
    using assms(1) by (rule get_fallback_recipes_nonempty)
  then have nonempty: "py_take n (map (tag ?st) (get_fallback_recipes q n)) \<noteq> []"
    using assms(1) by (simp add: py_take_def)
  have each: "r ''_fallback_used'' = Some (VBool True)
            \<and> (\<exists>kr \<in> set fallback_recipes. r = tag ?st (snd kr)
                 \<and> (if list_ex (keyword_or_ingredient_in_query q) fallback_recipes
                    then keyword_or_ingredient_in_query q kr
                    else kr = fallback_recipes ! 0))"
    if "r \<in> set (py_take n (map (tag ?st) (get_fallback_recipes q n)))" for r
  proof -
    from that set_py_take obtain x where
      x: "x \<in> set (get_fallback_recipes q n)" and r: "r = tag ?st x"
      by fastforce
    from get_fallback_recipes_from_table [OF x] obtain kr where
      kr: "kr \<in> set fallback_recipes" "x = snd kr"
        "if list_ex (fallback_match (lower q)) fallback_recipes
         then fallback_match (lower q) kr else kr = fallback_recipes ! 0"
      by blast
    have "r ''_fallback_used'' = Some (VBool True)"
      by (simp add: r tag_lookup ex(2))
    moreover have "list_ex (fallback_match (lower q)) fallback_recipes
        = list_ex (keyword_or_ingredient_in_query q) fallback_recipes"
      by (simp add: list_ex_iff fallback_match_spec)
    ultimately show ?thesis
      using kr r by (auto simp: fallback_match_spec)
  qed
  show ?thesis
    unfolding rec st using nonempty each ex(3) by blast
qed

lemma chicken_salad_matches:
  "map snd (filter (fallback_match ''chicken salad'') fallback_recipes)
     = [chicken_recipe, salad_recipe]"
  by (simp add: fallback_recipes_def fallback_match_def any_in_def
      pasta_recipe_def quinoa_recipe_def soup_recipe_def)

theorem exhausted_search_falls_back_witness:
  "recipes (search_recipes_with_fallback (\<lambda>a query max_results. Raises) 0 (init_api_health 0)
      ''Chicken Salad'' 2) \<noteq> []
   \<and> last (sources_tried (search_recipes_with_fallback (\<lambda>a query max_results. Raises) 0
      (init_api_health 0) ''Chicken Salad'' 2)) = ''fallback''
   \<and> get_fallback_recipes ''Chicken Salad'' 2 = [chicken_recipe, salad_recipe]"
proof -
  have l: "lower ''Chicken Salad'' = ''chicken salad''"
    by (simp add: lower_def lower_char_def char_of_eq_iff)
  have ne: "filter (fallback_match ''chicken salad'') fallback_recipes \<noteq> []"
    using chicken_salad_matches by auto
  have g: "get_fallback_recipes ''Chicken Salad'' 2 = [chicken_recipe, salad_recipe]"
    by (simp add: get_fallback_recipes_def l chicken_salad_matches ne py_take_def Let_def)
  show ?thesis
    using exhausted_search_falls_back
      [of 2 "init_api_health 0" "\<lambda>a query max_results. Raises" "''Chicken Salad''" 0] g
    by (simp add: api_priority_def)
qed

text \<open>
  With a result cap of 0 the exhausted search returns the empty list.
\<close>

theorem exhausted_search_zero_cap_counterexample:
  "recipes (search_recipes_with_fallback (\<lambda>a q n. Raises) 0 (init_api_health 0) ''chicken'' 0) = []"
  by (simp add: search_recipes_with_fallback_def Let_def py_take_def)

section \<open>Properties of the health table\<close>

lemma search_health:
  "health (search_recipes_with_fallback env now h q n) =
     health (search_loop env now q n api_priority
       \<lparr>recipes = [], sources_tried = [], health = h, called = []\<rparr>)"
  by (simp add: search_recipes_with_fallback_def Let_def)

lemma nutrition_reply_health:
  "reply_health (get_nutrition_with_fallback env now h ings) =
     n_health (nutrition_loop env now ings nutrition_apis
       \<lparr>nutrition_results = [], n_sources_tried = [], n_health = h, n_called = []\<rparr>)"
  "reply_called (get_nutrition_with_fallback env now h ings) =
     n_called (nutrition_loop env now ings nutrition_apis
       \<lparr>nutrition_results = [], n_sources_tried = [], n_health = h, n_called = []\<rparr>)"
  by (simp_all add: get_nutrition_with_fallback_def Let_def)

lemma nutrition_loop_health_other:
  "a \<notin> set ps \<Longrightarrow> n_health (nutrition_loop env now ings ps s) a = n_health s a"
  by (induction ps arbitrary: s) (auto simp: Let_def split: outcome.splits)

lemma nutrition_loop_health_unusable:
  "env a ings = Returns d \<Longrightarrow> \<not> any_values d \<Longrightarrow>
   n_health (nutrition_loop env now ings ps s) a = n_health s a"
  by (induction ps arbitrary: s) (auto simp: Let_def split: outcome.splits)

lemma nutrition_loop_health_cases:
  "distinct ps \<Longrightarrow> n_health s a = e \<Longrightarrow>
   n_health (nutrition_loop env now ings ps s) a = e
   \<or> (env a ings = Raises \<and>
       n_health (nutrition_loop env now ings ps s) a = failure_recorded_nutrition e)
   \<or> (usable (env a ings) \<and>
       n_health (nutrition_loop env now ings ps s) a = success_recorded now e)"
proof (induction ps arbitrary: s)
  case Nil
  then show ?case by simp
next
  case (Cons b rest)
  have d: "distinct rest" using Cons.prems(1) by simp
  note IH = Cons.IH [OF d]
  show ?case
  proof (cases "b = a")
    case True
    then have "a \<notin> set rest" using Cons.prems(1) by simp
    then show ?thesis
      using True Cons.prems(2)
      by (auto simp: nutrition_loop_health_other Let_def failure_recorded_nutrition_def
          success_recorded_def usable_def split: outcome.splits)
  next
    case False
    show ?thesis
    proof (cases "available (n_health s b)")
      case unavailable: False
      let ?s' = "s\<lparr>n_sources_tried := n_sources_tried s @ [api_name b @ ''(unavailable)'']\<rparr>"
      have "n_health ?s' a = e" using Cons.prems(2) by simp
      from IH [OF this] show ?thesis using unavailable by simp
    next
      case available: True
      show ?thesis
      proof (cases "env b ings")
        case Raises
        let ?s' = "s\<lparr>n_called := n_called s @ [b],
                      n_sources_tried := n_sources_tried s @ [api_name b @ ''(failed)''],
                      n_health := (n_health s)
                        (b := (n_health s b)\<lparr>failures := failures (n_health s b) + 1\<rparr>)\<rparr>"
        have "n_health ?s' a = e" using Cons.prems(2) False by simp
        from IH [OF this] show ?thesis using available Raises by simp
      next
        case (Returns d)
        let ?s1 = "s\<lparr>n_called := n_called s @ [b],
                      n_sources_tried := n_sources_tried s @ [api_name b]\<rparr>"
        have "n_health ?s1 a = e" using Cons.prems(2) by simp
        from IH [OF this] show ?thesis
          using available Returns False Cons.prems(2) by (simp add: Let_def)
      qed
    qed
  qed
qed

text \<open>
  A provider that is unavailable is skipped, so its entry is never touched again: nothing in
  either path sets the flag back.
\<close>

lemma search_loop_unavailable:
  "\<not> available (health s a) \<Longrightarrow> health (search_loop env now q n ps s) a = health s a"
  by (induction ps arbitrary: s) (auto simp: Let_def split: outcome.splits)

lemma nutrition_loop_unavailable:
  "\<not> available (n_health s a) \<Longrightarrow>
   n_health (nutrition_loop env now ings ps s) a = n_health s a"
  by (induction ps arbitrary: s) (auto simp: Let_def split: outcome.splits)

lemma unavailable_stays_unavailable:
  "\<not> available (h a) \<Longrightarrow> health (search_recipes_with_fallback env now h q n) a = h a"
  "\<not> available (h a) \<Longrightarrow> reply_health (get_nutrition_with_fallback nenv now h ings) a = h a"
  by (simp_all add: search_health nutrition_reply_health search_loop_unavailable
      nutrition_loop_unavailable)

text \<open>
  Claim C10. A provider whose call returns an empty list (search) or a record whose values
  are all zero (nutrition) keeps its health entry as it was. In either path the entry of a
  provider after an invocation is the old entry, or the entry with a failure recorded, and
  then the call raised, or the entry with a success recorded, and then the call returned
  usable data.
\<close>

theorem unusable_reply_leaves_health_unchanged:
  "(env a q n = Returns [] \<longrightarrow> health (search_recipes_with_fallback env now h q n) a = h a)
   \<and> (nenv a ings = Returns d \<and> \<not> any_values d \<longrightarrow>
        reply_health (get_nutrition_with_fallback nenv now h ings) a = h a)
   \<and> (health (search_recipes_with_fallback env now h q n) a = h a
        \<or> (env a q n = Raises \<and>
            health (search_recipes_with_fallback env now h q n) a
              = failure_recorded_search (h a))
        \<or> (returns_results (env a q n) \<and>
            health (search_recipes_with_fallback env now h q n) a
              = success_recorded now (h a)))
   \<and> (reply_health (get_nutrition_with_fallback nenv now h ings) a = h a
        \<or> (nenv a ings = Raises \<and>
            reply_health (get_nutrition_with_fallback nenv now h ings) a
              = failure_recorded_nutrition (h a))
        \<or> (usable (nenv a ings) \<and>
            reply_health (get_nutrition_with_fallback nenv now h ings) a
              = success_recorded now (h a)))"
proof -
  let ?s0 = "\<lparr>recipes = [], sources_tried = [], health = h, called = []\<rparr>"
  let ?n0 = "\<lparr>nutrition_results = [], n_sources_tried = [], n_health = h, n_called = []\<rparr>"
  have ds: "distinct api_priority" and dn: "distinct nutrition_apis"
    by (simp_all add: api_priority_def nutrition_apis_def)
  have 1: "health (search_recipes_with_fallback env now h q n) a = h a"
    if "env a q n = Returns []"
    using that search_loop_health_empty
      [where env = env and a = a and q = q and n = n and now = now
         and ps = api_priority and s = ?s0]
    by (simp add: search_health)
  have 2: "reply_health (get_nutrition_with_fallback nenv now h ings) a = h a"
    if "nenv a ings = Returns d" "\<not> any_values d"
    using that nutrition_loop_health_unusable
      [where env = nenv and a = a and ings = ings and d = d and now = now
         and ps = nutrition_apis and s = ?n0]
    by (simp add: nutrition_reply_health)
  have 3: "health (search_recipes_with_fallback env now h q n) a = h a
        \<or> (env a q n = Raises \<and>
            health (search_recipes_with_fallback env now h q n) a
              = failure_recorded_search (h a))
        \<or> (returns_results (env a q n) \<and>
            health (search_recipes_with_fallback env now h q n) a
              = success_recorded now (h a))"
    using ds search_loop_health_cases
      [where ps = api_priority and s = ?s0 and a = a and e = "h a" and env = env
         and q = q and n = n and now = now]
    by (simp add: search_health)
  have 4: "reply_health (get_nutrition_with_fallback nenv now h ings) a = h a
        \<or> (nenv a ings = Raises \<and>
            reply_health (get_nutrition_with_fallback nenv now h ings) a
              = failure_recorded_nutrition (h a))
        \<or> (usable (nenv a ings) \<and>
            reply_health (get_nutrition_with_fallback nenv now h ings) a
              = success_recorded now (h a))"
    using dn nutrition_loop_health_cases
      [where ps = nutrition_apis and s = ?n0 and a = a and e = "h a" and env = nenv
         and ings = ings and now = now]
    by (simp add: nutrition_reply_health)
  from 1 2 3 4 show ?thesis by blast
qed

theorem unusable_reply_leaves_health_unchanged_witness:
  "health (search_recipes_with_fallback (\<lambda>a query max_results. Returns []) 5
      (init_api_health 0) ''soup'' 3) themealdb = init_api_health 0 themealdb
   \<and> reply_health (get_nutrition_with_fallback (\<lambda>a ingredients. Returns zero_nutrition) 5
      (init_api_health 0) [''rice'']) usda = init_api_health 0 usda"
  using unusable_reply_leaves_health_unchanged
    [of "\<lambda>a query max_results. Returns []" themealdb "''soup''" 3 5 "init_api_health 0"
        "\<lambda>a ingredients. Returns zero_nutrition" "[''rice'']" zero_nutrition]
    unusable_reply_leaves_health_unchanged
    [of "\<lambda>a query max_results. Returns []" usda "''soup''" 3 5 "init_api_health 0"
        "\<lambda>a ingredients. Returns zero_nutrition" "[''rice'']" zero_nutrition]
  by (simp add: any_values_def zero_nutrition_def)

text \<open>
  Claim C2. Three nutrition lookups in a row in which the USDA call raises leave USDA with a
  failure count of 3 and still available, and a fourth lookup calls it again: the nutrition
  path counts failures but never clears the availability flag.
\<close>

theorem nutrition_failures_never_trip:
  "(let env = (\<lambda>a ingredients. if a = usda then Raises else Returns zero_nutrition);
        h1 = reply_health (get_nutrition_with_fallback env 1 (init_api_health 0) [''rice'']);
        h2 = reply_health (get_nutrition_with_fallback env 2 h1 [''rice'']);
        h3 = reply_health (get_nutrition_with_fallback env 3 h2 [''rice''])
    in failures (h3 usda) = 3 \<and> available (h3 usda)
       \<and> reply_called (get_nutrition_with_fallback env 4 h3 [''rice'']) = [usda, fatsecret])"
  by (simp add: nutrition_reply_health nutrition_apis_def init_api_health_def Let_def
      zero_nutrition_def any_values_def)

text \<open>
  Claim C6. From a failure count of 2, a raising call in the nutrition path takes the count
  to 3 and leaves the provider available, where the same step in the search path marks the
  provider unavailable.
\<close>

theorem nutrition_third_failure_keeps_available:
  "(let h = (init_api_health 0)
              (usda := \<lparr>available = True, last_success = 0, failures = 2\<rparr>,
               themealdb := \<lparr>available = True, last_success = 0, failures = 2\<rparr>);
        hn = reply_health (get_nutrition_with_fallback (\<lambda>a ingredients. Raises) 1 h [''rice'']);
        hs = health (search_recipes_with_fallback (\<lambda>a query max_results. Raises) 1 h ''rice'' 10)
    in failures (hn usda) = 3 \<and> available (hn usda)
       \<and> failures (hs themealdb) = 3 \<and> \<not> available (hs themealdb))"
  by (simp add: nutrition_reply_health search_health nutrition_apis_def api_priority_def
      init_api_health_def Let_def)

section \<open>Properties of the nutrition merge\<close>

lemma fold_keep_larger: "fold keep_larger vs m = Max (insert m (set vs))"
proof (induction vs arbitrary: m)
  case Nil
  show ?case by simp
next
  case (Cons v vs)
  have "Max (insert (keep_larger v m) (set vs)) = Max (insert m (insert v (set vs)))"
  proof (cases "set vs = {}")
    case True
    then show ?thesis by (simp add: keep_larger_def max_def)
  next
    case False
    then show ?thesis by (simp add: keep_larger_def max_def)
  qed
  then show ?case by (simp add: Cons.IH insert_commute)
qed

lemma Max_insert_zero: "Max (insert 0 (set vs)) = max_positive vs"
proof (cases "filter (\<lambda>v. v > 0) vs = []")
  case True
  then have "\<forall>v\<in>set vs. v \<le> 0" by (auto simp: filter_empty_conv not_less)
  then have "Max (insert 0 (set vs)) = 0" by (intro Max_eqI) auto
  with True show ?thesis by (simp add: max_positive_def)
next
  case False
  let ?P = "set (filter (\<lambda>v. v > 0) vs)"
  have ne: "?P \<noteq> {}" using False by (simp del: set_filter)
  have fin: "finite ?P" by simp
  have mem: "Max ?P \<in> ?P" using Max_in [OF fin ne] .
  have "Max (insert 0 (set vs)) = Max ?P"
  proof (rule Max_eqI)
    show "finite (insert 0 (set vs))" by simp
    show "Max ?P \<in> insert 0 (set vs)" using mem by auto
    fix y assume y: "y \<in> insert 0 (set vs)"
    show "y \<le> Max ?P"
    proof (cases "y > 0")
      case True
      with y have "y \<in> ?P" by auto
      then show ?thesis by (rule Max_ge [OF fin])
    next
      case False
      moreover have "0 < Max ?P" using mem by simp
      ultimately show ?thesis by simp
    qed
  qed
  with False show ?thesis by (simp add: max_positive_def)
qed

lemma fold_merge_into_fields:
  "calories (fold (\<lambda>(source, data) merged. merge_into merged data) rs m)
     = fold keep_larger (map (calories \<circ> snd) rs) (calories m)"
  "protein (fold (\<lambda>(source, data) merged. merge_into merged data) rs m)
     = fold keep_larger (map (protein \<circ> snd) rs) (protein m)"
  "carbs (fold (\<lambda>(source, data) merged. merge_into merged data) rs m)
     = fold keep_larger (map (carbs \<circ> snd) rs) (carbs m)"
  "fat (fold (\<lambda>(source, data) merged. merge_into merged data) rs m)
     = fold keep_larger (map (fat \<circ> snd) rs) (fat m)"
  "fiber (fold (\<lambda>(source, data) merged. merge_into merged data) rs m)
     = fold keep_larger (map (fiber \<circ> snd) rs) (fiber m)"
  by (induction rs arbitrary: m; simp add: merge_into_def keep_larger_def split_beta)+

lemma merge_fields:
  "calories (merge_nutrition_data rs) = max_positive (map (calories \<circ> snd) rs)"
  "protein (merge_nutrition_data rs) = max_positive (map (protein \<circ> snd) rs)"
  "carbs (merge_nutrition_data rs) = max_positive (map (carbs \<circ> snd) rs)"
  "fat (merge_nutrition_data rs) = max_positive (map (fat \<circ> snd) rs)"
  "fiber (merge_nutrition_data rs) = max_positive (map (fiber \<circ> snd) rs)"
  by (cases "rs = []";
      simp add: merge_nutrition_data_def fold_merge_into_fields fold_keep_larger
        zero_nutrition_def Max_insert_zero [symmetric] del: set_map)+

lemma merge_pair:
  "nonneg A \<Longrightarrow> nonneg B \<Longrightarrow>
   merge_nutrition_data [(p, A), (q, B)] =
     \<lparr>calories = max (calories A) (calories B), protein = max (protein A) (protein B),
      carbs = max (carbs A) (carbs B), fat = max (fat A) (fat B),
      fiber = max (fiber A) (fiber B)\<rparr>"
  by (simp add: merge_nutrition_data_def merge_into_def zero_nutrition_def nonneg_def max_def)

lemma merge_single: "nonneg A \<Longrightarrow> merge_nutrition_data [(p, A)] = A"
  by (cases A) (simp add: merge_nutrition_data_def merge_into_def zero_nutrition_def nonneg_def)

text \<open>
  Claim C4. For each of the five nutrients the merged value is the largest positive value
  among the sources, and zero when no source has a positive one. For two non-negative
  records the merge is their field-wise maximum, for one non-negative record it is that
  record, and for no record it is the all-zero record.
\<close>

theorem merge_takes_maximum:
  "calories (merge_nutrition_data rs) = max_positive (map (calories \<circ> snd) rs)
   \<and> protein (merge_nutrition_data rs) = max_positive (map (protein \<circ> snd) rs)
   \<and> carbs (merge_nutrition_data rs) = max_positive (map (carbs \<circ> snd) rs)
   \<and> fat (merge_nutrition_data rs) = max_positive (map (fat \<circ> snd) rs)
   \<and> fiber (merge_nutrition_data rs) = max_positive (map (fiber \<circ> snd) rs)
   \<and> (nonneg A \<and> nonneg B \<longrightarrow>
        merge_nutrition_data [(p, A), (q, B)] =
          \<lparr>calories = max (calories A) (calories B), protein = max (protein A) (protein B),
           carbs = max (carbs A) (carbs B), fat = max (fat A) (fat B),
           fiber = max (fiber A) (fiber B)\<rparr>)
   \<and> (nonneg A \<longrightarrow> merge_nutrition_data [(p, A)] = A)
   \<and> merge_nutrition_data [] = zero_nutrition"
  using merge_fields [of rs] merge_pair [of A B p q] merge_single [of A p]
  by (simp add: merge_nutrition_data_def)

theorem merge_takes_maximum_witness:
  "merge_nutrition_data
     [(usda, \<lparr>calories = 120, protein = 0, carbs = 30, fat = 2, fiber = 0\<rparr>),
      (fatsecret, \<lparr>calories = 100, protein = 8, carbs = 35, fat = 2, fiber = 0\<rparr>)]
     = \<lparr>calories = 120, protein = 8, carbs = 35, fat = 2, fiber = 0\<rparr>
   \<and> merge_nutrition_data [(usda, \<lparr>calories = 120, protein = 0, carbs = 30, fat = 2, fiber = 0\<rparr>)]
     = \<lparr>calories = 120, protein = 0, carbs = 30, fat = 2, fiber = 0\<rparr>"
  using merge_takes_maximum
    [of "[]" "\<lparr>calories = 120, protein = 0, carbs = 30, fat = 2, fiber = 0\<rparr>"
        "\<lparr>calories = 100, protein = 8, carbs = 35, fat = 2, fiber = 0\<rparr>" usda fatsecret]
  by (simp add: nonneg_def)

section \<open>Properties of the nutrition estimate\<close>

lemma estimate_loop_step:
  "estimate_loop (i # rest) acc =
     estimate_loop rest (add_nutrition acc (contribution (first_bucket source_order (lower i))))"
  by (cases acc) (simp add: first_bucket_def source_order_def Let_def add_nutrition_def zero_nutrition_def)

lemma estimate_loop_foldl:
  "estimate_loop ings acc =
     foldl add_nutrition acc
       (map (\<lambda>i. contribution (first_bucket source_order (lower i))) ings)"
proof (induction ings arbitrary: acc)
  case Nil
  show ?case by simp
next
  case (Cons i rest)
  show ?case by (simp only: estimate_loop_step Cons.IH list.map foldl_Cons)
qed

text \<open>
  Claim C7, as amended. Every ingredient is lower-cased and adds the contribution of exactly
  one bucket: the first that matches it in the order protein-rich, high-carb, high-fat,
  low-calorie, high-fiber, and the default contribution when none matches.
\<close>

theorem estimate_first_match_in_source_order:
  "estimate_nutrition ingredients = estimate_in_order source_order ingredients"
  by (simp only: estimate_nutrition_def estimate_in_order_def estimate_loop_foldl)

lemma estimate_example_fiber: "fiber (estimate_nutrition [''tomato and spinach'']) = 3"
  by code_simp
lemma claimed_order_example_fiber: "fiber (estimate_in_order claimed_order [''tomato and spinach'']) = 8"
  by code_simp

text \<open>
  With the high-fiber bucket tested before the low-calorie one, an ingredient that matches
  both would get 8 g of fiber; the estimator gives it 3 g.
\<close>

theorem estimate_claimed_order_counterexample:
  "estimate_nutrition [''tomato and spinach''] \<noteq> estimate_in_order claimed_order [''tomato and spinach'']"
proof
  assume "estimate_nutrition [''tomato and spinach''] = estimate_in_order claimed_order [''tomato and spinach'']"
  then have "fiber (estimate_nutrition [''tomato and spinach'']) = fiber (estimate_in_order claimed_order [''tomato and spinach''])"
    by simp
  then show False by (simp add: estimate_example_fiber claimed_order_example_fiber)
qed

lemma estimate_in_source_order_example:
  "estimate_in_order source_order [''Chicken Breast'', ''tomato and spinach'', ''salt''] =
     \<lparr>calories = 200, protein = 15, carbs = 15, fat = 0, fiber = 3\<rparr>"
  by code_simp

theorem estimate_first_match_witness:
  "estimate_nutrition [''Chicken Breast'', ''tomato and spinach'', ''salt''] =
     \<lparr>calories = 200, protein = 15, carbs = 15, fat = 0, fiber = 3\<rparr>"
  using estimate_first_match_in_source_order
    [of "[''Chicken Breast'', ''tomato and spinach'', ''salt'']"]
  by (simp only: estimate_in_source_order_example)

section \<open>Properties of the nutrition analysis\<close>

lemma nutrients_loop_health_score:
  "nutrients_loop ar servings ns an = Inr an' \<Longrightarrow> health_score an' = health_score an"
  by (induction ar servings ns an rule: nutrients_loop.induct) (auto split: if_splits)

lemma category_estimate_health_score:
  "health_score (category_estimate c an) = health_score an"
  by (simp add: category_estimate_def Let_def)

lemma health_scoring_fields:
  "calories_per_serving (health_scoring ar an) = calories_per_serving an"
  "protein_per_serving (health_scoring ar an) = protein_per_serving an"
  "carbs_per_serving (health_scoring ar an) = carbs_per_serving an"
  "fat_per_serving (health_scoring ar an) = fat_per_serving an"
  by (simp_all add: health_scoring_def Let_def)

lemma health_scoring_score:
  "health_score (health_scoring ar an) =
     (if calories_per_serving an > 0 then
        balance_points (macro_pct ar 4 (protein_per_serving an) (calories_per_serving an))
          (macro_pct ar 4 (carbs_per_serving an) (calories_per_serving an))
          (macro_pct ar 9 (fat_per_serving an) (calories_per_serving an))
        + calorie_band_points (calories_per_serving an)
      else health_score an)"
  by (simp add: health_scoring_def Let_def balance_points_def calorie_band_points_def macro_pct_def)

lemma balance_points_range: "0 \<le> balance_points p c f \<and> balance_points p c f \<le> 75"
  by (simp add: balance_points_def)

lemma calorie_band_points_range: "10 \<le> calorie_band_points c \<and> calorie_band_points c \<le> 25"
  by (simp add: calorie_band_points_def)

lemma analyze_nutrition_score:
  assumes "analyze_nutrition ar env now h rd = Inr (an, h', calls)"
  shows "health_score an =
           (if calories_per_serving an > 0 then
              balance_points (macro_pct ar 4 (protein_per_serving an) (calories_per_serving an))
                (macro_pct ar 4 (carbs_per_serving an) (calories_per_serving an))
                (macro_pct ar 9 (fat_per_serving an) (calories_per_serving an))
              + calorie_band_points (calories_per_serving an)
            else 0)"
proof -
  from assms obtain an0 where
    l: "nutrients_loop ar (rd_servings rd) (rd_nutrients rd) initial_analysis = Inr an0"
    by (auto simp: analyze_nutrition_def Let_def split: sum.splits)
  have z: "health_score an0 = 0"
    using nutrients_loop_health_score [OF l] by (simp add: initial_analysis_def)
  show ?thesis
    using assms z
    by (auto simp: analyze_nutrition_def Let_def l category_estimate_health_score
        health_scoring_score health_scoring_fields split: if_splits)
qed

text \<open>
  The per-serving values of the three category estimates, which involve no arithmetic.
\<close>

lemma analyze_nutrition_category_examples:
  "\<exists>an. analyze_nutrition ar env now h
      \<lparr>rd_nutrients = [], rd_servings = 4, rd_ingredients = [], rd_category = ''Chocolate Cake''\<rparr>
      = Inr (an, h, [])
    \<and> calories_per_serving an = 400 \<and> protein_per_serving an = 0
    \<and> carbs_per_serving an = 60 \<and> fat_per_serving an = 20"
  "\<exists>an. analyze_nutrition ar env now h
      \<lparr>rd_nutrients = [], rd_servings = 4, rd_ingredients = [], rd_category = ''Soup''\<rparr>
      = Inr (an, h, [])
    \<and> calories_per_serving an = 250 \<and> protein_per_serving an = 0
    \<and> carbs_per_serving an = 20 \<and> fat_per_serving an = 10"
  "\<exists>an. analyze_nutrition ar env now h
      \<lparr>rd_nutrients = [], rd_servings = 4, rd_ingredients = [], rd_category = ''Main Course''\<rparr>
      = Inr (an, h, [])
    \<and> calories_per_serving an = 350 \<and> protein_per_serving an = 0
    \<and> carbs_per_serving an = 30 \<and> fat_per_serving an = 15"
proof -
  have l1: "lower ''Chocolate Cake'' = ''chocolate cake''"
    and l2: "lower ''Soup'' = ''soup''"
    and l3: "lower ''Main Course'' = ''main course''"
    by (simp_all add: lower_def lower_char_def char_of_eq_iff)
  show "\<exists>an. analyze_nutrition ar env now h
      \<lparr>rd_nutrients = [], rd_servings = 4, rd_ingredients = [], rd_category = ''Chocolate Cake''\<rparr>
      = Inr (an, h, [])
    \<and> calories_per_serving an = 400 \<and> protein_per_serving an = 0
    \<and> carbs_per_serving an = 60 \<and> fat_per_serving an = 20"
    by (simp add: analyze_nutrition_def initial_analysis_def category_estimate_def l1
        health_scoring_fields)
  show "\<exists>an. analyze_nutrition ar env now h
      \<lparr>rd_nutrients = [], rd_servings = 4, rd_ingredients = [], rd_category = ''Soup''\<rparr>
      = Inr (an, h, [])
    \<and> calories_per_serving an = 250 \<and> protein_per_serving an = 0
    \<and> carbs_per_serving an = 20 \<and> fat_per_serving an = 10"
    by (simp add: analyze_nutrition_def initial_analysis_def category_estimate_def l2
        health_scoring_fields)
  show "\<exists>an. analyze_nutrition ar env now h
      \<lparr>rd_nutrients = [], rd_servings = 4, rd_ingredients = [], rd_category = ''Main Course''\<rparr>
      = Inr (an, h, [])
    \<and> calories_per_serving an = 350 \<and> protein_per_serving an = 0
    \<and> carbs_per_serving an = 30 \<and> fat_per_serving an = 15"
    by (simp add: analyze_nutrition_def initial_analysis_def category_estimate_def l3
        health_scoring_fields)
qed

text \<open>
  Claim C5, as amended. Whenever the analysis returns, its health score lies between 0 and
  100, whatever the rounding of the arithmetic. When the calories per serving are positive
  the score is the balance points (25 each for a protein share in [10, 30], a carbohydrate
  share of at most 65 and a fat share of at most 35, the shares as the code's arithmetic
  yields them) plus the calorie band points (25 in [200, 600], 15 below 200, 10 above 800,
  else 20). When the calories per serving are not positive the score is 0.
\<close>

theorem health_score_in_range:
  assumes "analyze_nutrition ar env now h rd = Inr (an, h', calls)"
  shows "0 \<le> health_score an \<and> health_score an \<le> 100
       \<and> (0 < calories_per_serving an \<longrightarrow>
            health_score an =
              balance_points (macro_pct ar 4 (protein_per_serving an) (calories_per_serving an))
                (macro_pct ar 4 (carbs_per_serving an) (calories_per_serving an))
                (macro_pct ar 9 (fat_per_serving an) (calories_per_serving an))
              + calorie_band_points (calories_per_serving an))
       \<and> (calories_per_serving an \<le> 0 \<longrightarrow> health_score an = 0)"
proof -
  let ?b = "balance_points (macro_pct ar 4 (protein_per_serving an) (calories_per_serving an))
                (macro_pct ar 4 (carbs_per_serving an) (calories_per_serving an))
                (macro_pct ar 9 (fat_per_serving an) (calories_per_serving an))"
  let ?c = "calorie_band_points (calories_per_serving an)"
  have s: "health_score an = (if calories_per_serving an > 0 then ?b + ?c else 0)"
    by (rule analyze_nutrition_score [OF assms])
  have "0 \<le> ?b \<and> ?b \<le> 75" by (rule balance_points_range)
  moreover have "10 \<le> ?c \<and> ?c \<le> 25" by (rule calorie_band_points_range)
  ultimately show ?thesis
    by (simp add: s)
qed

lemma sample_nutrients:
  "nutrients_loop exact_arith 1
     [(''Calories'', 350), (''Protein'', 30), (''Carbohydrates'', 20), (''Fat'', 15)]
     initial_analysis
   = Inr (initial_analysis\<lparr>calories_per_serving := 350, protein_per_serving := 30,
            carbs_per_serving := 20, fat_per_serving := 15\<rparr>)"
  by (simp add: initial_analysis_def exact_arith_def)

theorem health_score_in_range_witness:
  "\<exists>an. analyze_nutrition exact_arith (\<lambda>_ _. Raises) 0 (init_api_health 0)
     \<lparr>rd_nutrients = [(''Calories'', 350), (''Protein'', 30), (''Carbohydrates'', 20), (''Fat'', 15)],
      rd_servings = 1,
      rd_ingredients = [''chicken breast'', ''lettuce'', ''tomato'', ''olive oil''],
      rd_category = ''''\<rparr> = Inr (an, init_api_health 0, [])
    \<and> calories_per_serving an = 350 \<and> health_score an = 50"
proof -
  let ?rd = "\<lparr>rd_nutrients = [(''Calories'', 350), (''Protein'', 30), (''Carbohydrates'', 20), (''Fat'', 15)],
      rd_servings = 1,
      rd_ingredients = [''chicken breast'', ''lettuce'', ''tomato'', ''olive oil''],
      rd_category = ''''\<rparr>"
  obtain an where r: "analyze_nutrition exact_arith (\<lambda>_ _. Raises) 0 (init_api_health 0) ?rd
        = Inr (an, init_api_health 0, [])"
     and c: "calories_per_serving an = 350" "protein_per_serving an = 30"
       "carbs_per_serving an = 20" "fat_per_serving an = 15"
    by (simp add: analyze_nutrition_def sample_nutrients Let_def health_scoring_fields
        exact_arith_def initial_analysis_def)
  have "health_score an = 50"
    using health_score_in_range [OF r]
    by (simp add: c balance_points_def calorie_band_points_def macro_pct_def exact_arith_def)
  with r c show ?thesis by blast
qed

text \<open>
  A lookup that reports 5 g of protein and no calories: the calories per serving are 0, the
  calorie band of 0 is worth 15 points, and the score is 0, so it is not the sum of the
  balance points, which are never negative, and the band points. The divisions are by 1
  and exact in floating point.
\<close>

theorem health_score_sum_counterexample:
  "(case analyze_nutrition exact_arith
           (\<lambda>a ingredients. Returns \<lparr>calories = 0, protein = 5, carbs = 0, fat = 0, fiber = 0\<rparr>)
           0 (init_api_health 0)
           \<lparr>rd_nutrients = [], rd_servings = 1, rd_ingredients = [''egg white''],
            rd_category = ''''\<rparr> of
      Inl e \<Rightarrow> False
    | Inr (an, h', calls) \<Rightarrow>
        calls = [usda] \<and> calories_per_serving an = 0 \<and> protein_per_serving an = 5
        \<and> health_score an = 0
        \<and> calorie_band_points (calories_per_serving an) = 15)"
  by (simp add: analyze_nutrition_def get_nutrition_with_fallback_def nutrition_apis_def
      init_api_health_def any_values_def merge_nutrition_data_def merge_into_def
      zero_nutrition_def initial_analysis_def Let_def exact_arith_def health_scoring_def
      calorie_band_points_def)

text \<open>
  Claim C9. A recipe with an embedded nutrients list and \<open>servings = 0\<close> makes the analysis
  raise ZeroDivisionError: the embedded values are divided by \<open>servings\<close> itself, not by
  \<open>max(servings, 1)\<close> as the values of the ingredient lookup are.
\<close>

theorem analyze_nutrition_zero_servings_raises:
  "analyze_nutrition ar env now h
     \<lparr>rd_nutrients = [(''Calories'', 100)], rd_servings = 0,
      rd_ingredients = [''rice''], rd_category = ''''\<rparr> = Inl ZeroDivisionError"
  by (simp add: analyze_nutrition_def)

section \<open>Properties of the output guard\<close>

lemma rstrip_length: "length (rstrip s) \<le> length s"
proof -
  have "length (dropWhile isspace (rev s)) \<le> length (rev s)"
    by (rule length_dropWhile_le)
  then show ?thesis by (simp add: rstrip_def)
qed

lemma rstrip_snoc_nonspace: "\<not> isspace c \<Longrightarrow> rstrip (xs @ [c]) = xs @ [c]"
  by (simp add: rstrip_def)

lemma rstrip_snoc_space: "isspace c \<Longrightarrow> rstrip (xs @ [c]) = rstrip xs"
  by (simp add: rstrip_def)

lemma rstrip_last_nonspace: "s \<noteq> [] \<Longrightarrow> \<not> isspace (last s) \<Longrightarrow> rstrip s = s"
  by (cases s rule: rev_cases) (simp_all add: rstrip_snoc_nonspace)

lemma lstrip_Cons_nonspace: "\<not> isspace c \<Longrightarrow> lstrip (c # xs) = c # xs"
  by (simp add: lstrip_def)

lemma strip_no_outer_space:
  "s \<noteq> [] \<Longrightarrow> \<not> isspace (hd s) \<Longrightarrow> \<not> isspace (last s) \<Longrightarrow> strip s = s"
  by (cases s) (simp_all add: strip_def lstrip_def rstrip_last_nonspace)

lemma generate_unfold:
  "0 \<le> max_chars \<Longrightarrow>
   generate max_chars resp =
     (if int (length (strip resp)) > max_chars
      then rstrip (take (nat max_chars) (strip resp)) @ trimmed_suffix
      else strip resp)"
  by (simp add: generate_def py_take_def Let_def)

lemma length_trimmed_suffix: "length trimmed_suffix = 14"
  by (simp add: trimmed_suffix_def)

text \<open>
  Claim C8, as amended. When the response, stripped of leading and trailing whitespace, is
  longer than a budget of at least 0, the answer is the first \<open>max_chars\<close> characters of the
  stripped response with their trailing whitespace removed, followed by the trimmed suffix.
  It is never longer than the budget plus the suffix, and it is exactly that long when the
  last character kept by the cut is not whitespace.
\<close>

theorem generate_truncates:
  assumes "0 \<le> max_chars" and "int (length (strip resp)) > max_chars"
  shows "generate max_chars resp = rstrip (take (nat max_chars) (strip resp)) @ trimmed_suffix
       \<and> length (generate max_chars resp) \<le> nat max_chars + length trimmed_suffix
       \<and> (0 < max_chars \<and> \<not> isspace (strip resp ! (nat max_chars - 1)) \<longrightarrow>
            generate max_chars resp = take (nat max_chars) (strip resp) @ trimmed_suffix
            \<and> length (generate max_chars resp) = nat max_chars + length trimmed_suffix)"
proof -
  let ?t = "take (nat max_chars) (strip resp)"
  have g: "generate max_chars resp = rstrip ?t @ trimmed_suffix"
    using assms by (simp add: generate_unfold)
  have len_t: "length ?t = nat max_chars"
    using assms by simp
  have le: "length (rstrip ?t) \<le> nat max_chars"
    using rstrip_length [of ?t] len_t by simp
  have exact: "rstrip ?t = ?t"
    if "0 < max_chars" and "\<not> isspace (strip resp ! (nat max_chars - 1))"
  proof -
    have ne: "?t \<noteq> []" using len_t that(1) by auto
    have "last ?t = ?t ! (nat max_chars - 1)"
      using ne len_t by (simp add: last_conv_nth)
    also have "\<dots> = strip resp ! (nat max_chars - 1)"
      using that(1) by simp
    finally show ?thesis using ne that(2) by (simp add: rstrip_last_nonspace)
  qed
  show ?thesis
    using g le len_t exact by simp
qed

lemma generate_cut_at_space:
  assumes "\<not> isspace a" and "\<not> isspace b" and "isspace sp" and "0 < n"
  shows "generate (int (Suc n)) (replicate n a @ sp # b # replicate m b)
           = replicate n a @ trimmed_suffix"
proof -
  let ?resp = "replicate n a @ sp # b # replicate m b"
  have hd: "hd ?resp = a" using assms(4) by (cases n) simp_all
  have "last ?resp = b" by simp
  then have s: "strip ?resp = ?resp"
    using assms hd by (intro strip_no_outer_space) simp_all
  have t: "take (Suc n) ?resp = replicate n a @ [sp]"
    by simp
  have "replicate n a \<noteq> []" using assms(4) by simp
  moreover have "last (replicate n a) = a" using assms(4) by simp
  ultimately have r: "rstrip (replicate n a) = replicate n a"
    using assms(1) by (simp add: rstrip_last_nonspace)
  have longer: "int (Suc n) < int (length ?resp)" by simp
  have "generate (int (Suc n)) ?resp =
          (if int (length (strip ?resp)) > int (Suc n)
           then rstrip (take (nat (int (Suc n))) (strip ?resp)) @ trimmed_suffix
           else strip ?resp)"
    by (rule generate_unfold) simp
  also have "\<dots> = rstrip (take (Suc n) ?resp) @ trimmed_suffix"
    by (simp only: s longer if_True nat_int)
  also have "\<dots> = replicate n a @ trimmed_suffix"
    by (simp only: t rstrip_snoc_space [OF assms(3)] r)
  finally show ?thesis .
qed

text \<open>
  A response of 5000 characters whose 2500th character is a space: under the default budget
  the answer keeps 2499 characters before the suffix, not 2500.
\<close>

theorem generate_exact_budget_counterexample:
  "length (replicate 2499 CHR ''a'' @ CHR '' '' # replicate 2500 CHR ''b'') = 5000 \<and>
   length (generate (max_chars_of None)
     (replicate 2499 CHR ''a'' @ CHR '' '' # replicate 2500 CHR ''b''))
     \<noteq> 2500 + length trimmed_suffix"
proof -
  have na: "\<not> isspace CHR ''a''" and nb: "\<not> isspace CHR ''b''" and sp: "isspace CHR '' ''"
    by (simp_all add: isspace_def)
  have g: "generate (int (Suc 2499))
             (replicate 2499 CHR ''a'' @ CHR '' '' # CHR ''b'' # replicate 2499 CHR ''b'')
           = replicate 2499 CHR ''a'' @ trimmed_suffix"
    by (rule generate_cut_at_space [OF na nb sp]) simp
  have m: "int (Suc 2499) = max_chars_of None"
    by (simp add: max_chars_of_def)
  have "(2500::nat) = Suc 2499" by simp
  then have b: "replicate 2500 CHR ''b'' = CHR ''b'' # replicate 2499 CHR ''b''"
    by (simp only: replicate_Suc)
  have "generate (max_chars_of None)
          (replicate 2499 CHR ''a'' @ CHR '' '' # replicate 2500 CHR ''b'')
        = replicate 2499 CHR ''a'' @ trimmed_suffix"
    using g by (simp only: m b)
  then show ?thesis by (simp add: length_trimmed_suffix)
qed

theorem generate_truncates_witness:
  "generate 3 ''  ab cd  '' = ''ab'' @ trimmed_suffix \<and>
   length (generate 4 ''ab cd'') = 4 + length trimmed_suffix"
proof -
  have s1: "strip ''  ab cd  '' = ''ab cd''" and s2: "strip ''ab cd'' = ''ab cd''"
    by (simp_all add: strip_def lstrip_def rstrip_def isspace_def)
  have r: "rstrip ''ab '' = ''ab''" by (simp add: rstrip_def isspace_def)
  have ns: "\<not> isspace CHR ''c''" by (simp add: isspace_def)
  have w1: "generate 3 ''  ab cd  '' = ''ab'' @ trimmed_suffix"
    using generate_truncates [of 3 "''  ab cd  ''"] by (simp add: s1 r)
  have h: "(0::int) \<le> 4" "int (length (strip ''ab cd'')) > 4"
    by (simp_all add: s2)
  have w2: "length (generate 4 ''ab cd'') = 4 + length trimmed_suffix"
    using conjunct2 [OF conjunct2 [OF generate_truncates [OF h]]] by (simp add: s2 ns)
  show ?thesis using w1 w2 by simp
qed

end
